theory Spec2Isabelle
  imports Complex_Main
begin

section \<open>Data model\<close>

text \<open>
  Amounts are Python floats in the source. They are modelled as \<^typ>\<open>real\<close>: the comparisons
  and sums of the program are read as exact arithmetic, so rounding, infinities and NaN are
  outside this development.
\<close>

datatype py_error = KeyError | OverflowError

subsection \<open>Timestamps\<close>

text \<open>
  A naive \<^verbatim>\<open>datetime\<close>: Python compares two of them field by field, from the year down
  to the microsecond.
\<close>

record datetime =
  year :: int
  month :: int
  day :: int
  hour :: int
  minute :: int
  second :: int
  microsecond :: int

definition dt_fields :: "datetime \<Rightarrow> int list" where
  "dt_fields d = [year d, month d, day d, hour d, minute d, second d, microsecond d]"

fun lex_le :: "int list \<Rightarrow> int list \<Rightarrow> bool" where
  "lex_le [] ys = True"
| "lex_le (x # xs) [] = False"
| "lex_le (x # xs) (y # ys) = (x < y \<or> (x = y \<and> lex_le xs ys))"

definition dt_le :: "datetime \<Rightarrow> datetime \<Rightarrow> bool" where
  "dt_le a b = lex_le (dt_fields a) (dt_fields b)"

definition dt_ge :: "datetime \<Rightarrow> datetime \<Rightarrow> bool" where
  "dt_ge a b = dt_le b a"

definition dt_lt :: "datetime \<Rightarrow> datetime \<Rightarrow> bool" where
  "dt_lt a b = (\<not> dt_le b a)"

text \<open>\<^verbatim>\<open>datetime(year=now.year, month=now.month, day=1)\<close>: the other fields default to 0.\<close>

definition month_start :: "datetime \<Rightarrow> datetime" where
  "month_start now =
     \<lparr>year = year now, month = month now, day = 1,
      hour = 0, minute = 0, second = 0, microsecond = 0\<rparr>"

text \<open>
  The well-formed values of the type: the ranges \<^verbatim>\<open>datetime\<close> enforces on construction
  (the day's upper bound is not refined by the month's length, which no comparison here needs).
\<close>

definition valid_datetime :: "datetime \<Rightarrow> bool" where
  "valid_datetime d \<longleftrightarrow>
     1 \<le> year d \<and> year d \<le> 9999 \<and> 1 \<le> month d \<and> month d \<le> 12 \<and>
     1 \<le> day d \<and> day d \<le> 31 \<and> 0 \<le> hour d \<and> hour d \<le> 23 \<and>
     0 \<le> minute d \<and> minute d \<le> 59 \<and> 0 \<le> second d \<and> second d \<le> 59 \<and>
     0 \<le> microsecond d \<and> microsecond d \<le> 999999"

text \<open>
  \<^verbatim>\<open>datetime + timedelta(days=n)\<close>. The sum is a date \<open>n\<close> days away at the same time of
  day, and Python raises \<^verbatim>\<open>OverflowError\<close> when that date leaves the years 1 to 9999, that
  is when its ordinal (the day number counted from 1 January of year 1) leaves 1 to 3652059;
  a day count beyond the range of \<^verbatim>\<open>timedelta\<close> is among those cases. The sum itself is
  kept as the pair of the instant and the day count.
\<close>

definition is_leap :: "int \<Rightarrow> bool" where
  "is_leap y \<longleftrightarrow> y mod 4 = 0 \<and> (y mod 100 \<noteq> 0 \<or> y mod 400 = 0)"

definition days_before_year :: "int \<Rightarrow> int" where
  "days_before_year y = (y - 1) * 365 + (y - 1) div 4 - (y - 1) div 100 + (y - 1) div 400"

definition days_in_months :: "int \<Rightarrow> int list" where
  "days_in_months y =
     [31, if is_leap y then 29 else 28, 31, 30, 31, 30, 31, 31, 30, 31, 30, 31]"

definition days_before_month :: "int \<Rightarrow> int \<Rightarrow> int" where
  "days_before_month y m = sum_list (take (nat (m - 1)) (days_in_months y))"

definition toordinal :: "datetime \<Rightarrow> int" where
  "toordinal d = days_before_year (year d) + days_before_month (year d) (month d) + day d"

definition plus_days :: "datetime \<Rightarrow> int \<Rightarrow> py_error + datetime \<times> int" where
  "plus_days now n =
     (if 1 \<le> toordinal now + n \<and> toordinal now + n \<le> 3652059
      then Inr (now, n) else Inl OverflowError)"

text \<open>
  The window of the specification, in its own words: from the first instant of the month
  containing \<open>now\<close> (inclusive) to the first instant of the next month (exclusive).
\<close>

definition next_month_start :: "datetime \<Rightarrow> datetime" where
  "next_month_start now =
     (if month now = 12
      then \<lparr>year = year now + 1, month = 1, day = 1,
            hour = 0, minute = 0, second = 0, microsecond = 0\<rparr>
      else \<lparr>year = year now, month = month now + 1, day = 1,
            hour = 0, minute = 0, second = 0, microsecond = 0\<rparr>)"

definition spec_in_calendar_month :: "datetime \<Rightarrow> datetime \<Rightarrow> bool" where
  "spec_in_calendar_month now ts \<longleftrightarrow>
     dt_ge ts (month_start now) \<and> dt_lt ts (next_month_start now)"

subsection \<open>Persistent rows\<close>

text \<open>
  Modelled from the spec: \<^verbatim>\<open>app.db.models\<close> (User, Goal, Transaction, GoalStatus,
  TransactionCategory) is not among the sources. The enumerations are the closed sets the
  specification names; a member's \<^verbatim>\<open>.value\<close> is its name in lower case, which is what
  \<^verbatim>\<open>analyze_spending_pattern\<close> compares against.
\<close>

datatype GoalStatus = ACTIVE | COMPLETED | ABANDONED

datatype TransactionCategory = SHOPPING | FOOD | ENTERTAINMENT | TRANSPORT | BILLS | OTHER

fun category_value :: "TransactionCategory \<Rightarrow> string" where
  "category_value SHOPPING = ''shopping''"
| "category_value FOOD = ''food''"
| "category_value ENTERTAINMENT = ''entertainment''"
| "category_value TRANSPORT = ''transport''"
| "category_value BILLS = ''bills''"
| "category_value OTHER = ''other''"

fun status_value :: "GoalStatus \<Rightarrow> string" where
  "status_value ACTIVE = ''active''"
| "status_value COMPLETED = ''completed''"
| "status_value ABANDONED = ''abandoned''"

record User =
  user_pk :: nat
  telegram_id :: string

text \<open>
  A deadline is stored as the pair (instant of the call, number of days) that
  \<^verbatim>\<open>plus_days\<close> returns for \<^verbatim>\<open>datetime.utcnow() + timedelta(days=deadline_days)\<close>.
\<close>

record Goal =
  goal_id :: nat
  goal_user_id :: nat
  title :: string
  target_amount :: real
  deadline :: "(datetime \<times> int) option"
  month_nonessential_budget :: "real option"
  status :: GoalStatus
  current_amount :: real

record Transaction =
  transaction_id :: nat
  tx_user_id :: nat
  amount :: real
  merchant :: string
  category :: TransactionCategory
  timestamp :: datetime

text \<open>
  The database session: one list per table, in insertion order. \<^verbatim>\<open>.all()\<close> returns the
  matching rows in that order and \<^verbatim>\<open>.first()\<close> the first of them.
\<close>

record db =
  users :: "User list"
  goals :: "Goal list"
  transactions :: "Transaction list"

text \<open>Modelled from the spec: the derived column of Goal, 0 when the target is 0.\<close>

definition progress_percentage :: "Goal \<Rightarrow> real" where
  "progress_percentage g =
     (if target_amount g = 0 then 0 else current_amount g / target_amount g * 100)"

text \<open>Primary keys are assigned by the database on insertion: one more than the largest in use.\<close>

definition next_id :: "nat list \<Rightarrow> nat" where
  "next_id ids = Suc (fold max ids 0)"

definition first_row :: "'a list \<Rightarrow> 'a option" where
  "first_row xs = (case xs of [] \<Rightarrow> None | x # _ \<Rightarrow> Some x)"

text \<open>Python's truth value of an \<^verbatim>\<open>Optional[float]\<close>: \<^verbatim>\<open>None\<close> and \<^verbatim>\<open>0.0\<close> are false.\<close>

fun truthy :: "real option \<Rightarrow> bool" where
  "truthy None = False"
| "truthy (Some x) = (x \<noteq> 0)"

section \<open>The agent's tools (\<^verbatim>\<open>app/agents/tools.py\<close>)\<close>

text \<open>
  Every method of \<^verbatim>\<open>AgentTools\<close> takes the session and \<^verbatim>\<open>self.user\<close>; a method that
  commits returns the new session. \<^verbatim>\<open>datetime.utcnow()\<close> is the parameter \<open>now\<close>.
\<close>

definition get_or_create_user :: "db \<Rightarrow> string \<Rightarrow> db \<times> User" where
  "get_or_create_user d uid =
     (case first_row (filter (\<lambda>u. telegram_id u = uid) (users d)) of
        Some u \<Rightarrow> (d, u)
      | None \<Rightarrow>
          (let u = \<lparr>user_pk = next_id (map user_pk (users d)), telegram_id = uid\<rparr>
           in (d\<lparr>users := users d @ [u]\<rparr>, u)))"

record goal_created =
  gc_goal_id :: nat
  gc_title :: string
  gc_target_amount :: real
  gc_deadline :: "(datetime \<times> int) option"
  gc_status :: string

text \<open>
  The deadline is computed first; when that raises, no row is built and the session is
  left as it was.
\<close>

definition set_saving_goal ::
  "db \<Rightarrow> User \<Rightarrow> datetime \<Rightarrow> string \<Rightarrow> real \<Rightarrow> int option \<Rightarrow> real option
     \<Rightarrow> py_error + db \<times> goal_created" where
  "set_saving_goal d user now ttl target deadline_days budget_arg =
     (case (case deadline_days of
              None \<Rightarrow> Inr None
            | Some n \<Rightarrow>
                if n \<noteq> 0
                then (case plus_days now n of Inl e \<Rightarrow> Inl e | Inr dl \<Rightarrow> Inr (Some dl))
                else Inr None) of
        Inl e \<Rightarrow> Inl e
      | Inr dl \<Rightarrow>
          (let goal = \<lparr>goal_id = next_id (map goal_id (goals d)),
                       goal_user_id = user_pk user,
                       title = ttl,
                       target_amount = target,
                       deadline = dl,
                       month_nonessential_budget = budget_arg,
                       status = ACTIVE,
                       current_amount = 0\<rparr>
           in Inr (d\<lparr>goals := goals d @ [goal]\<rparr>,
                   \<lparr>gc_goal_id = goal_id goal, gc_title = title goal,
                    gc_target_amount = target_amount goal, gc_deadline = deadline goal,
                    gc_status = status_value (status goal)\<rparr>)))"

text \<open>The query both readers of the active goal share: the user's rows with status ACTIVE.\<close>

definition active_goals_query :: "db \<Rightarrow> User \<Rightarrow> Goal list" where
  "active_goals_query d user =
     filter (\<lambda>g. goal_user_id g = user_pk user \<and> status g = ACTIVE) (goals d)"

record goal_info =
  gi_goal_id :: nat
  gi_title :: string
  gi_target_amount :: real
  gi_current_amount :: real
  gi_progress_percentage :: real
  gi_deadline :: "(datetime \<times> int) option"
  gi_month_nonessential_budget :: "real option"

definition goal_to_info :: "Goal \<Rightarrow> goal_info" where
  "goal_to_info g =
     \<lparr>gi_goal_id = goal_id g, gi_title = title g, gi_target_amount = target_amount g,
      gi_current_amount = current_amount g, gi_progress_percentage = progress_percentage g,
      gi_deadline = deadline g, gi_month_nonessential_budget = month_nonessential_budget g\<rparr>"

definition get_active_goals :: "db \<Rightarrow> User \<Rightarrow> goal_info list" where
  "get_active_goals d user = map goal_to_info (active_goals_query d user)"

subsection \<open>Spending analysis\<close>

record spending =
  total_nonessential :: real
  category_breakdown :: "string \<rightharpoonup> real"
  sp_month_nonessential_budget :: "real option"
  remaining_budget :: "real option"
  transaction_count :: nat

text \<open>
  One turn of the loop over the month's transactions. \<^verbatim>\<open>category_totals[category] += amount\<close>
  reads the key before it writes it, and a missing key would be a \<^verbatim>\<open>KeyError\<close>.
\<close>

definition spending_step ::
  "Transaction \<Rightarrow> (string \<rightharpoonup> real) \<times> real \<Rightarrow> py_error + (string \<rightharpoonup> real) \<times> real" where
  "spending_step tx acc =
     (case acc of (category_totals, tot) \<Rightarrow>
        (let cat = category_value (category tx);
             amt = amount tx;
             totals1 = (if category_totals cat = None
                        then category_totals(cat \<mapsto> 0) else category_totals)
         in case totals1 cat of
              None \<Rightarrow> Inl KeyError
            | Some v \<Rightarrow>
                Inr (totals1(cat \<mapsto> v + amt),
                     if cat \<in> set [''shopping'', ''food'', ''entertainment'']
                     then tot + amt else tot)))"

fun spending_loop ::
  "Transaction list \<Rightarrow> (string \<rightharpoonup> real) \<times> real \<Rightarrow> py_error + (string \<rightharpoonup> real) \<times> real" where
  "spending_loop [] acc = Inr acc"
| "spending_loop (tx # txs) acc =
     (case spending_step tx acc of
        Inl e \<Rightarrow> Inl e
      | Inr acc' \<Rightarrow> spending_loop txs acc')"

text \<open>The rows the analysis reads: the user's transactions stamped at or after the month's start.\<close>

definition month_transactions :: "db \<Rightarrow> User \<Rightarrow> datetime \<Rightarrow> Transaction list" where
  "month_transactions d user now =
     filter (\<lambda>t. tx_user_id t = user_pk user \<and> dt_ge (timestamp t) (month_start now))
       (transactions d)"

definition analyze_spending_pattern :: "db \<Rightarrow> User \<Rightarrow> datetime \<Rightarrow> py_error + spending" where
  "analyze_spending_pattern d user now =
     (let txs = month_transactions d user now
      in case spending_loop txs (Map.empty, 0) of
           Inl e \<Rightarrow> Inl e
         | Inr (category_totals, tot) \<Rightarrow>
             (let active_goal = first_row (active_goals_query d user);
                  bud = (case active_goal of
                           None \<Rightarrow> None
                         | Some g \<Rightarrow> month_nonessential_budget g);
                  remain = (if truthy bud then map_option (\<lambda>b. b - tot) bud else None)
              in Inr \<lparr>total_nonessential = tot,
                      category_breakdown = category_totals,
                      sp_month_nonessential_budget = bud,
                      remaining_budget = remain,
                      transaction_count = length txs\<rparr>))"

subsection \<open>Budget status\<close>

text \<open>
  The returned dictionary; a key the branch does not set is \<open>None\<close>. The configured
  \<^verbatim>\<open>settings.comfort_zone_threshold\<close> (\<^verbatim>\<open>app.config\<close> is not among the sources) is the
  parameter \<open>threshold\<close>.
\<close>

record budget_status =
  verdict :: string
  message :: "string option"
  label :: "string option"
  total_spent :: "real option"
  budget :: "real option"
  remaining :: "real option"
  saving_goal :: "real option"
  goal_title :: "string option"

text \<open>\<^verbatim>\<open>x or 0\<close> on an \<^verbatim>\<open>Optional[float]\<close>.\<close>

fun or_zero :: "real option \<Rightarrow> real" where
  "or_zero None = 0"
| "or_zero (Some x) = (if x \<noteq> 0 then x else 0)"

definition check_budget_status ::
  "real \<Rightarrow> db \<Rightarrow> User \<Rightarrow> datetime \<Rightarrow> py_error + budget_status" where
  "check_budget_status threshold d user now =
     (case analyze_spending_pattern d user now of
        Inl e \<Rightarrow> Inl e
      | Inr sp \<Rightarrow>
          (case first_row (active_goals_query d user) of
             None \<Rightarrow>
               Inr \<lparr>verdict = ''NO_GOAL'', message = Some ''No active goal set'',
                    label = None, total_spent = None, budget = None, remaining = None,
                    saving_goal = None, goal_title = None\<rparr>
           | Some active_goal \<Rightarrow>
               (let spent = total_nonessential sp;
                    bud = or_zero (month_nonessential_budget active_goal);
                    remain = bud - spent;
                    target = target_amount active_goal;
                    vl = (if remain \<ge> target * threshold then (''GREEN'', ''on track'')
                          else if remain \<ge> 0 then (''ORANGE'', ''borderline'')
                          else (''RED'', ''over budget''))
                in Inr \<lparr>verdict = fst vl, message = None, label = Some (snd vl),
                        total_spent = Some spent, budget = Some bud, remaining = Some remain,
                        saving_goal = Some target,
                        goal_title = Some (title active_goal)\<rparr>)))"

subsection \<open>Recording a transaction\<close>

text \<open>
  \<^verbatim>\<open>str.upper\<close>. A string is the UTF-8 bytes of the Python text. On text that is all
  ASCII, \<^verbatim>\<open>str.upper\<close> moves the letters a to z to A to Z and leaves the rest. On any other
  text it follows the Unicode case mappings, which are not written out here: there the
  result is what the parameter \<open>unicode_upper\<close>, standing for Python's own function, returns.
\<close>

definition upper_char :: "char \<Rightarrow> char" where
  "upper_char c =
     (let n = (of_char c :: nat)
      in if 97 \<le> n \<and> n \<le> 122 then char_of (n - 32) else c)"

definition upper :: "(string \<Rightarrow> string) \<Rightarrow> string \<Rightarrow> string" where
  "upper unicode_upper s =
     (if list_all (\<lambda>c. (of_char c :: nat) < 128) s then map upper_char s
      else unicode_upper s)"

text \<open>
  \<^verbatim>\<open>TransactionCategory[name]\<close>: lookup of a member by its name, a \<^verbatim>\<open>KeyError\<close> when no
  member has that name.
\<close>

fun category_name :: "TransactionCategory \<Rightarrow> string" where
  "category_name SHOPPING = ''SHOPPING''"
| "category_name FOOD = ''FOOD''"
| "category_name ENTERTAINMENT = ''ENTERTAINMENT''"
| "category_name TRANSPORT = ''TRANSPORT''"
| "category_name BILLS = ''BILLS''"
| "category_name OTHER = ''OTHER''"

definition TransactionCategory_members :: "TransactionCategory list" where
  "TransactionCategory_members = [SHOPPING, FOOD, ENTERTAINMENT, TRANSPORT, BILLS, OTHER]"

definition TransactionCategory_getitem :: "string \<Rightarrow> py_error + TransactionCategory" where
  "TransactionCategory_getitem name =
     (case find (\<lambda>m. category_name m = name) TransactionCategory_members of
        Some m \<Rightarrow> Inr m
      | None \<Rightarrow> Inl KeyError)"

record transaction_info =
  ti_transaction_id :: nat
  ti_amount :: real
  ti_merchant :: string
  ti_category :: string
  ti_timestamp :: datetime

text \<open>
  The row's timestamp is not passed by the caller: the column defaults to the instant of
  creation, \<open>now\<close>.
\<close>

definition add_transaction ::
  "(string \<Rightarrow> string) \<Rightarrow> db \<Rightarrow> User \<Rightarrow> datetime \<Rightarrow> real \<Rightarrow> string \<Rightarrow> string
     \<Rightarrow> py_error + db \<times> transaction_info" where
  "add_transaction unicode_upper d user now amt mer cat =
     (case (case TransactionCategory_getitem (upper unicode_upper cat) of
              Inr c \<Rightarrow> Inr c
            | Inl KeyError \<Rightarrow> Inr OTHER
            | Inl e \<Rightarrow> Inl e) of
        Inl e \<Rightarrow> Inl e
      | Inr cat_enum \<Rightarrow>
          (let tx = \<lparr>transaction_id = next_id (map transaction_id (transactions d)),
                     tx_user_id = user_pk user,
                     amount = amt,
                     merchant = mer,
                     category = cat_enum,
                     timestamp = now\<rparr>
           in Inr (d\<lparr>transactions := transactions d @ [tx]\<rparr>,
                   \<lparr>ti_transaction_id = transaction_id tx, ti_amount = amount tx,
                    ti_merchant = merchant tx,
                    ti_category = category_value (category tx),
                    ti_timestamp = timestamp tx\<rparr>)))"

section \<open>The MVP service (\<^verbatim>\<open>app/main.py\<close>)\<close>

text \<open>
  \<^verbatim>\<open>app.storage\<close> and \<^verbatim>\<open>app.models\<close> are not among the sources: what \<^verbatim>\<open>get_user\<close>,
  \<^verbatim>\<open>add_transaction\<close> and \<^verbatim>\<open>get_user_transactions\<close> return are parameters of the functions
  below. A stored user carries the two numbers \<^verbatim>\<open>set_goal\<close> writes.
\<close>

record user_dict =
  month_saving_goal :: real
  user_month_nonessential_budget :: real

record tx_dict =
  td_amount :: real
  td_merchant :: string
  td_category :: string
  td_timestamp :: datetime

fun calc_loop :: "datetime \<Rightarrow> tx_dict list \<Rightarrow> real \<Rightarrow> real" where
  "calc_loop ms [] tot = tot"
| "calc_loop ms (tx # txs) tot =
     calc_loop ms txs
       (if dt_ge (td_timestamp tx) ms
           \<and> td_category tx \<in> set [''shopping'', ''food'', ''entertainment'']
        then tot + td_amount tx else tot)"

definition calc_month_nonessential_spend :: "tx_dict list \<Rightarrow> datetime \<Rightarrow> real" where
  "calc_month_nonessential_spend txs now = calc_loop (month_start now) txs 0"

definition evaluate_purchase :: "user_dict \<Rightarrow> tx_dict \<Rightarrow> real \<Rightarrow> string \<times> string \<times> real" where
  "evaluate_purchase user tx month_spend_nonessential_before =
     (let nonessential_budget = user_month_nonessential_budget user;
          remaining_before = nonessential_budget - month_spend_nonessential_before;
          remaining_after = remaining_before - td_amount tx
      in if remaining_after \<ge> month_saving_goal user * 0.5
         then (''GREEN'', ''probably okay for your saving goal'', remaining_after)
         else if remaining_after \<ge> 0
         then (''ORANGE'', ''borderline for your saving goal'', remaining_after)
         else (''RED'', ''hurting your saving goal this month'', remaining_after))"

subsection \<open>The notification text\<close>

text \<open>
  The text is kept as the sequence of its pieces: literal text, a float printed by
  \<^verbatim>\<open>str\<close>, and a float printed with the format \<^verbatim>\<open>.0f\<close>. Which digits a float prints as is
  not modelled; which number is printed is. Literals that are not ASCII are the bytes of
  the source file.
\<close>

datatype fragment = Lit string | FloatStr real | FloatFixed0 real

definition rupee :: string where
  "rupee = [CHR 0xC3, CHR 0xA2, CHR 0xE2, CHR 0x80, CHR 0x9A, CHR 0xC2, CHR 0xB9]"

definition emoji_map :: "(string \<times> string) list" where
  "emoji_map =
     [(''GREEN'', [CHR 0xC3, CHR 0xB0, CHR 0xC5, CHR 0xB8, CHR 0xC5, CHR 0xB8, CHR 0xC2, CHR 0xA2]),
      (''ORANGE'', [CHR 0xC3, CHR 0xB0, CHR 0xC5, CHR 0xB8, CHR 0xC5, CHR 0xB8, CHR 0xC2, CHR 0xA0]),
      (''RED'', [CHR 0xC3, CHR 0xB0, CHR 0xC5, CHR 0xB8, CHR 0xE2, CHR 0x80, CHR 0x9D, CHR 0xC2,
                 CHR 0xB4])]"

definition build_verdict_message ::
  "user_dict \<Rightarrow> tx_dict \<Rightarrow> string \<Rightarrow> string \<Rightarrow> real \<Rightarrow> fragment list" where
  "build_verdict_message user tx vd lbl remaining_after =
     (let emoji = (case map_of emoji_map vd of
                     Some e \<Rightarrow> e
                   | None \<Rightarrow> [CHR 0xC3, CHR 0xA2, CHR 0xC5, CHR 0xA1, CHR 0xC2, CHR 0xAA]);
          month_goal = month_saving_goal user
      in [Lit emoji, Lit ('' You just spent '' @ rupee), FloatStr (td_amount tx),
          Lit '' on '', Lit (td_merchant tx), Lit (''.'' @ [CHR 0x0A]),
          Lit (''This month you want to save '' @ rupee), FloatStr month_goal,
          Lit (''.'' @ [CHR 0x0A]),
          Lit ''Based on your current spending, this purchase is '', Lit lbl,
          Lit (''.'' @ [CHR 0x0A, CHR 0x0A]),
          Lit (''Approx. non-essential budget left this month after this: '' @ rupee),
          FloatFixed0 (max remaining_after 0), Lit (''.'' @ [CHR 0x0A]),
          Lit (''If you want, we can adjust something else to keep you on track. ''
               @ [CHR 0xC3, CHR 0xB0, CHR 0xC5, CHR 0xB8, CHR 0xE2, CHR 0x80, CHR 0x99,
                  CHR 0xC2, CHR 0xB8])])"

subsection \<open>The route \<^verbatim>\<open>/add-transaction\<close>\<close>

record add_tx_response =
  ok :: bool
  error :: "string option"
  transaction :: "tx_dict option"
  resp_verdict :: "string option"
  verdict_label :: "string option"
  month_spend_nonessential_before :: "real option"
  remaining_nonessential_budget_after :: "real option"
  notification_message :: "fragment list option"
  notify_status :: "string option"

text \<open>
  \<open>user_opt\<close> is what \<^verbatim>\<open>get_user\<close> returned, \<open>tx\<close> the record \<^verbatim>\<open>add_transaction\<close> stored
  and returned, \<open>txs\<close> the user's transactions read back after that, and \<open>body_amount\<close>
  the amount of the request.
\<close>

definition add_tx ::
  "user_dict option \<Rightarrow> tx_dict \<Rightarrow> tx_dict list \<Rightarrow> datetime \<Rightarrow> real \<Rightarrow> add_tx_response" where
  "add_tx user_opt tx txs now body_amount =
     (case user_opt of
        None \<Rightarrow>
          \<lparr>ok = False, error = Some ''User not found'', transaction = None,
           resp_verdict = None, verdict_label = None,
           month_spend_nonessential_before = None,
           remaining_nonessential_budget_after = None,
           notification_message = None, notify_status = None\<rparr>
      | Some user \<Rightarrow>
          (let month_spend_total = calc_month_nonessential_spend txs now;
               month_spend_before = month_spend_total - body_amount
           in case evaluate_purchase user tx month_spend_before of
                (vd, lbl, remaining_after) \<Rightarrow>
                  (let verdict_message = build_verdict_message user tx vd lbl remaining_after
                   in \<lparr>ok = True, error = None, transaction = Some tx,
                       resp_verdict = Some vd, verdict_label = Some lbl,
                       month_spend_nonessential_before = Some month_spend_before,
                       remaining_nonessential_budget_after = Some remaining_after,
                       notification_message = Some verdict_message,
                       notify_status = Some ''telegram_send_triggered''\<rparr>)))"

section \<open>Reference definitions\<close>

text \<open>
  What the specification says the aggregator computes, written independently of the loop:
  the sum over the non-essential categories, the sum of one category, and the map that
  holds a sum for exactly the categories that occur.
\<close>

definition nonessential_sum :: "Transaction list \<Rightarrow> real" where
  "nonessential_sum txs =
     sum_list (map amount (filter (\<lambda>t. category t \<in> {SHOPPING, FOOD, ENTERTAINMENT}) txs))"

definition category_sum :: "string \<Rightarrow> Transaction list \<Rightarrow> real" where
  "category_sum c txs =
     sum_list (map amount (filter (\<lambda>t. category_value (category t) = c) txs))"

definition category_map :: "Transaction list \<Rightarrow> (string \<rightharpoonup> real)" where
  "category_map txs =
     (\<lambda>c. if c \<in> set (map (\<lambda>t. category_value (category t)) txs)
          then Some (category_sum c txs) else None)"

text \<open>The names of the members of the closed category set.\<close>

definition category_names :: "string list" where
  "category_names = map category_name TransactionCategory_members"

text \<open>Whether the deadline of a set-goal request can be computed: none asked for, or in range.\<close>

definition deadline_in_range :: "datetime \<Rightarrow> int option \<Rightarrow> bool" where
  "deadline_in_range now deadline_days =
     (case deadline_days of
        None \<Rightarrow> True
      | Some n \<Rightarrow> n = 0 \<or> (1 \<le> toordinal now + n \<and> toordinal now + n \<le> 3652059))"

text \<open>
  A sequence of set-goal operations by one user, each with its own arguments and its own
  instant, run one after the other on the session; an operation that raises leaves the
  session as it found it.
\<close>

record goal_request =
  rq_now :: datetime
  rq_title :: string
  rq_target_amount :: real
  rq_deadline_days :: "int option"
  rq_month_nonessential_budget :: "real option"

definition set_saving_goals :: "db \<Rightarrow> User \<Rightarrow> goal_request list \<Rightarrow> db" where
  "set_saving_goals d user reqs =
     fold (\<lambda>rq d'. case set_saving_goal d' user (rq_now rq) (rq_title rq) (rq_target_amount rq)
                            (rq_deadline_days rq) (rq_month_nonessential_budget rq) of
                      Inl e \<Rightarrow> d'
                    | Inr (d'', r) \<Rightarrow> d'')
       reqs d"

text \<open>The numbers a notification text prints with the format \<^verbatim>\<open>.0f\<close>, in order.\<close>

fun fixed0_values :: "fragment list \<Rightarrow> real list" where
  "fixed0_values [] = []"
| "fixed0_values (FloatFixed0 v # fs) = v # fixed0_values fs"
| "fixed0_values (f # fs) = fixed0_values fs"

subsection \<open>Sample data\<close>

text \<open>
  A stand-in for \<^verbatim>\<open>str.upper\<close> beyond ASCII; the sample strings are ASCII, where it is not
  consulted.
\<close>

definition sample_unicode_upper :: "string \<Rightarrow> string" where
  "sample_unicode_upper s = s"

definition sample_user :: User where
  "sample_user = \<lparr>user_pk = 1, telegram_id = ''42''\<rparr>"

definition sample_now :: datetime where
  "sample_now = \<lparr>year = 2024, month = 3, day = 15,
                 hour = 12, minute = 0, second = 0, microsecond = 0\<rparr>"

definition at_day :: "int \<Rightarrow> int \<Rightarrow> int \<Rightarrow> datetime" where
  "at_day y m dd = \<lparr>year = y, month = m, day = dd,
                    hour = 9, minute = 30, second = 0, microsecond = 0\<rparr>"

definition sample_goal :: "real \<Rightarrow> real option \<Rightarrow> Goal" where
  "sample_goal target bud =
     \<lparr>goal_id = 1, goal_user_id = 1, title = ''Laptop'', target_amount = target,
      deadline = None, month_nonessential_budget = bud, status = ACTIVE,
      current_amount = 0\<rparr>"

definition sample_tx :: "nat \<Rightarrow> real \<Rightarrow> TransactionCategory \<Rightarrow> datetime \<Rightarrow> Transaction" where
  "sample_tx n amt cat ts =
     \<lparr>transaction_id = n, tx_user_id = 1, amount = amt, merchant = ''Store'',
      category = cat, timestamp = ts\<rparr>"

definition sample_db :: "Goal list \<Rightarrow> Transaction list \<Rightarrow> db" where
  "sample_db gs txs = \<lparr>users = [sample_user], goals = gs, transactions = txs\<rparr>"

section \<open>The loop of the analysis in closed form\<close>

lemma nonessential_value:
  "category_value c \<in> set [''shopping'', ''food'', ''entertainment'']
     \<longleftrightarrow> c \<in> {SHOPPING, FOOD, ENTERTAINMENT}"
  by (cases c) simp_all

lemma spending_step_eq:
  "spending_step tx (m, t) =
     Inr (m(category_value (category tx) \<mapsto>
            (case m (category_value (category tx)) of None \<Rightarrow> 0 | Some v \<Rightarrow> v) + amount tx),
          if category tx \<in> {SHOPPING, FOOD, ENTERTAINMENT} then t + amount tx else t)"
  unfolding spending_step_def Let_def
  by (cases "m (category_value (category tx))") (simp_all only: nonessential_value, auto)

lemma category_sum_absent:
  "c \<notin> set (map (\<lambda>t. category_value (category t)) txs) \<Longrightarrow> category_sum c txs = 0"
  by (induction txs) (auto simp: category_sum_def)

lemma spending_loop_eq:
  "spending_loop txs (m, t) =
     Inr ((\<lambda>c. if c \<in> set (map (\<lambda>t. category_value (category t)) txs)
               then Some ((case m c of None \<Rightarrow> 0 | Some v \<Rightarrow> v) + category_sum c txs)
               else m c),
          t + nonessential_sum txs)"
proof (induction txs arbitrary: m t)
  case Nil
  show ?case by (simp add: nonessential_sum_def)
next
  case (Cons tx txs)
  let ?k = "category_value (category tx)"
  let ?m' = "m(?k \<mapsto> (case m ?k of None \<Rightarrow> 0 | Some v \<Rightarrow> v) + amount tx)"
  have maps: "(\<lambda>c. if c \<in> set (map (\<lambda>t. category_value (category t)) txs)
                   then Some ((case ?m' c of None \<Rightarrow> 0 | Some v \<Rightarrow> v) + category_sum c txs)
                   else ?m' c)
            = (\<lambda>c. if c \<in> set (map (\<lambda>t. category_value (category t)) (tx # txs))
                   then Some ((case m c of None \<Rightarrow> 0 | Some v \<Rightarrow> v) + category_sum c (tx # txs))
                   else m c)"
  proof (rule ext)
    fix c
    show "(if c \<in> set (map (\<lambda>t. category_value (category t)) txs)
           then Some ((case ?m' c of None \<Rightarrow> 0 | Some v \<Rightarrow> v) + category_sum c txs)
           else ?m' c)
        = (if c \<in> set (map (\<lambda>t. category_value (category t)) (tx # txs))
           then Some ((case m c of None \<Rightarrow> 0 | Some v \<Rightarrow> v) + category_sum c (tx # txs))
           else m c)"
    proof (cases "c = ?k")
      case True
      then show ?thesis
        using category_sum_absent [of c txs]
        by (auto simp: category_sum_def split: option.splits)
    next
      case False
      then show ?thesis by (auto simp: category_sum_def)
    qed
  qed
  have tot: "(if category tx \<in> {SHOPPING, FOOD, ENTERTAINMENT} then t + amount tx else t)
               + nonessential_sum txs = t + nonessential_sum (tx # txs)"
    by (simp add: nonessential_sum_def)
  show ?case
    by (simp only: spending_loop.simps spending_step_eq sum.case Cons.IH maps tot)
qed

lemma spending_loop_start:
  "spending_loop txs (Map.empty, 0) = Inr (category_map txs, nonessential_sum txs)"
  by (simp add: spending_loop_eq category_map_def cong: if_cong)

lemma analyze_spending_pattern_eq:
  "analyze_spending_pattern d user now =
     Inr \<lparr>total_nonessential = nonessential_sum (month_transactions d user now),
          category_breakdown = category_map (month_transactions d user now),
          sp_month_nonessential_budget =
            (case first_row (active_goals_query d user) of
               None \<Rightarrow> None | Some g \<Rightarrow> month_nonessential_budget g),
          remaining_budget =
            (case first_row (active_goals_query d user) of
               None \<Rightarrow> None
             | Some g \<Rightarrow>
                 (if truthy (month_nonessential_budget g)
                  then map_option (\<lambda>b. b - nonessential_sum (month_transactions d user now))
                         (month_nonessential_budget g)
                  else None)),
          transaction_count = length (month_transactions d user now)\<rparr>"
  unfolding analyze_spending_pattern_def Let_def
  by (simp add: spending_loop_start split: option.splits)

lemma check_budget_status_no_goal:
  "first_row (active_goals_query d user) = None \<Longrightarrow>
   check_budget_status threshold d user now =
     Inr \<lparr>verdict = ''NO_GOAL'', message = Some ''No active goal set'',
          label = None, total_spent = None, budget = None, remaining = None,
          saving_goal = None, goal_title = None\<rparr>"
  unfolding check_budget_status_def
  by (simp add: analyze_spending_pattern_eq)

lemma check_budget_status_goal:
  "first_row (active_goals_query d user) = Some g \<Longrightarrow>
   check_budget_status threshold d user now =
     (let spent = nonessential_sum (month_transactions d user now);
          bud = or_zero (month_nonessential_budget g);
          r = bud - spent;
          vl = (if r \<ge> target_amount g * threshold then (''GREEN'', ''on track'')
                else if r \<ge> 0 then (''ORANGE'', ''borderline'')
                else (''RED'', ''over budget''))
      in Inr \<lparr>verdict = fst vl, message = None, label = Some (snd vl),
              total_spent = Some spent, budget = Some bud, remaining = Some r,
              saving_goal = Some (target_amount g), goal_title = Some (title g)\<rparr>)"
  unfolding check_budget_status_def
  by (simp add: analyze_spending_pattern_eq Let_def)

lemma or_zero_Some: "or_zero (Some b) = b"
  by simp

section \<open>Recording in closed form\<close>

lemma getitem_member: "TransactionCategory_getitem (category_name m) = Inr m"
  by (cases m) (simp_all add: TransactionCategory_getitem_def TransactionCategory_members_def)

lemma getitem_unknown:
  "name \<notin> set category_names \<Longrightarrow> TransactionCategory_getitem name = Inl KeyError"
  by (auto simp: TransactionCategory_getitem_def category_names_def
      TransactionCategory_members_def)

lemma getitem_cases:
  "TransactionCategory_getitem name = Inl KeyError \<or> (\<exists>c. TransactionCategory_getitem name = Inr c)"
  by (simp add: TransactionCategory_getitem_def split: option.splits)

lemma add_transaction_eq:
  "add_transaction uu d user now amt mer cat =
     Inr (d\<lparr>transactions := transactions d @
              [\<lparr>transaction_id = next_id (map transaction_id (transactions d)),
                tx_user_id = user_pk user, amount = amt, merchant = mer,
                category = (case TransactionCategory_getitem (upper uu cat) of
                              Inr c \<Rightarrow> c | Inl e \<Rightarrow> OTHER),
                timestamp = now\<rparr>]\<rparr>,
          \<lparr>ti_transaction_id = next_id (map transaction_id (transactions d)),
           ti_amount = amt, ti_merchant = mer,
           ti_category = category_value (case TransactionCategory_getitem (upper uu cat) of
                                           Inr c \<Rightarrow> c | Inl e \<Rightarrow> OTHER),
           ti_timestamp = now\<rparr>)"
  using getitem_cases [of "upper uu cat"]
  by (auto simp: add_transaction_def Let_def)

section \<open>The month's window\<close>

lemma lex_tail_floor:
  "1 \<le> dd \<Longrightarrow> 0 \<le> h \<Longrightarrow> 0 \<le> mi \<Longrightarrow> 0 \<le> s \<Longrightarrow> 0 \<le> us \<Longrightarrow>
   lex_le [1, 0, 0, 0, 0] [dd, h, mi, s, us]"
  by (simp add: order_le_less)

lemma month_floor_le:
  assumes "valid_datetime ts"
  shows "dt_le \<lparr>year = y, month = m, day = 1, hour = 0, minute = 0, second = 0,
                 microsecond = 0\<rparr> ts
         \<longleftrightarrow> y < year ts \<or> (y = year ts \<and> m \<le> month ts)"
proof -
  have tail: "lex_le [1, 0, 0, 0, 0] [day ts, hour ts, minute ts, second ts, microsecond ts]"
    using assms by (intro lex_tail_floor) (simp_all add: valid_datetime_def)
  have "dt_le \<lparr>year = y, month = m, day = 1, hour = 0, minute = 0, second = 0,
                 microsecond = 0\<rparr> ts
        \<longleftrightarrow> y < year ts \<or> (y = year ts \<and> (m < month ts \<or> (m = month ts \<and>
              lex_le [1, 0, 0, 0, 0] [day ts, hour ts, minute ts, second ts, microsecond ts])))"
    by (simp only: dt_le_def dt_fields_def lex_le.simps datetime.simps)
  with tail show ?thesis by (simp only: simp_thms order_le_less)
qed

lemma dt_ge_month_start:
  "valid_datetime ts \<Longrightarrow>
   dt_ge ts (month_start now) \<longleftrightarrow>
     year now < year ts \<or> (year now = year ts \<and> month now \<le> month ts)"
  unfolding dt_ge_def month_start_def by (rule month_floor_le)

lemma dt_lt_next_month_start:
  assumes "valid_datetime ts" "valid_datetime now"
  shows "dt_lt ts (next_month_start now) \<longleftrightarrow>
     year ts < year now \<or> (year ts = year now \<and> month ts \<le> month now)"
proof (cases "month now = 12")
  case True
  have "month ts \<le> 12" using assms(1) by (simp add: valid_datetime_def)
  moreover have "1 \<le> month ts" using assms(1) by (simp add: valid_datetime_def)
  ultimately show ?thesis
    unfolding dt_lt_def next_month_start_def
    using True by (simp add: month_floor_le [OF assms(1)]) linarith
next
  case False
  then show ?thesis
    unfolding dt_lt_def next_month_start_def
    by (simp add: month_floor_le [OF assms(1)]) linarith
qed

lemma dt_le_year_month:
  "dt_le ts now \<Longrightarrow> year ts < year now \<or> (year ts = year now \<and> month ts \<le> month now)"
  by (simp add: dt_le_def dt_fields_def) linarith

lemma spec_in_calendar_month_iff:
  "valid_datetime ts \<Longrightarrow> valid_datetime now \<Longrightarrow>
   spec_in_calendar_month now ts \<longleftrightarrow> year ts = year now \<and> month ts = month now"
  unfolding spec_in_calendar_month_def
  by (simp add: dt_ge_month_start dt_lt_next_month_start) linarith

lemma window_is_calendar_month:
  assumes "valid_datetime ts" "valid_datetime now" "dt_le ts now"
  shows "dt_ge ts (month_start now) \<longleftrightarrow> spec_in_calendar_month now ts"
  using assms(1,2) dt_le_year_month [OF assms(3)]
  unfolding spec_in_calendar_month_def
  by (simp add: dt_ge_month_start dt_lt_next_month_start)

lemma calc_loop_eq:
  "calc_loop ms txs tot =
     tot + sum_list (map td_amount
             (filter (\<lambda>t. dt_ge (td_timestamp t) ms
                        \<and> td_category t \<in> {''shopping'', ''food'', ''entertainment''}) txs))"
  by (induction txs arbitrary: tot) auto

section \<open>Goals in closed form\<close>

lemma set_saving_goal_ok:
  "deadline_in_range now dl \<Longrightarrow>
   set_saving_goal d user now ttl target dl bud =
     Inr (d\<lparr>goals := goals d @
              [\<lparr>goal_id = next_id (map goal_id (goals d)), goal_user_id = user_pk user,
                title = ttl, target_amount = target,
                deadline = (case dl of None \<Rightarrow> None
                            | Some n \<Rightarrow> if n \<noteq> 0 then Some (now, n) else None),
                month_nonessential_budget = bud, status = ACTIVE, current_amount = 0\<rparr>]\<rparr>,
          \<lparr>gc_goal_id = next_id (map goal_id (goals d)), gc_title = ttl,
           gc_target_amount = target,
           gc_deadline = (case dl of None \<Rightarrow> None
                          | Some n \<Rightarrow> if n \<noteq> 0 then Some (now, n) else None),
           gc_status = ''active''\<rparr>)"
  by (cases dl) (auto simp: set_saving_goal_def deadline_in_range_def plus_days_def Let_def)

lemma set_saving_goal_overflow:
  "\<not> deadline_in_range now dl \<Longrightarrow>
   set_saving_goal d user now ttl target dl bud = Inl OverflowError"
  by (cases dl) (auto simp: set_saving_goal_def deadline_in_range_def plus_days_def)

lemma get_active_goals_append:
  "get_active_goals
     (d\<lparr>goals := goals d @
         [\<lparr>goal_id = i, goal_user_id = user_pk user, title = ttl, target_amount = target,
           deadline = dl, month_nonessential_budget = bud, status = ACTIVE,
           current_amount = 0\<rparr>]\<rparr>) user =
   get_active_goals d user @
     [\<lparr>gi_goal_id = i, gi_title = ttl, gi_target_amount = target, gi_current_amount = 0,
       gi_progress_percentage = 0, gi_deadline = dl, gi_month_nonessential_budget = bud\<rparr>]"
  by (simp add: get_active_goals_def active_goals_query_def goal_to_info_def
      progress_percentage_def)

lemma set_saving_goals_Cons:
  "set_saving_goals d user (rq # reqs) =
     set_saving_goals
       (case set_saving_goal d user (rq_now rq) (rq_title rq) (rq_target_amount rq)
               (rq_deadline_days rq) (rq_month_nonessential_budget rq) of
          Inl e \<Rightarrow> d | Inr (d'', r) \<Rightarrow> d'')
       user reqs"
  by (simp add: set_saving_goals_def)

lemma get_active_goals_sequence:
  "map (\<lambda>i. (gi_title i, gi_target_amount i, gi_month_nonessential_budget i))
     (get_active_goals (set_saving_goals d user reqs) user) =
   map (\<lambda>i. (gi_title i, gi_target_amount i, gi_month_nonessential_budget i))
     (get_active_goals d user)
   @ map (\<lambda>rq. (rq_title rq, rq_target_amount rq, rq_month_nonessential_budget rq))
       (filter (\<lambda>rq. deadline_in_range (rq_now rq) (rq_deadline_days rq)) reqs)"
proof (induction reqs arbitrary: d)
  case Nil
  show ?case by (simp add: set_saving_goals_def)
next
  case (Cons rq reqs)
  show ?case
  proof (cases "deadline_in_range (rq_now rq) (rq_deadline_days rq)")
    case True
    show ?thesis
      unfolding set_saving_goals_Cons set_saving_goal_ok [OF True] Cons.IH
      using True by (simp add: get_active_goals_append)
  next
    case False
    show ?thesis
      unfolding set_saving_goals_Cons set_saving_goal_overflow [OF False] Cons.IH
      using False by simp
  qed
qed

section \<open>Aggregation\<close>

text \<open>
  C5. The analysis always returns a result. Its non-essential total is the sum of the amounts
  of the window's transactions in the categories shopping, food and entertainment; its
  category map holds, for each category that occurs in the window (essential or not) and for
  no other key, the sum of that category's amounts; its count is the number of transactions
  in the window. With no transaction in the window the total is 0, the map is empty and the
  count is 0, and nothing is raised.
\<close>

theorem analyze_spending_pattern_totals:
  "\<exists>sp. analyze_spending_pattern d user now = Inr sp \<and>
      total_nonessential sp = nonessential_sum (month_transactions d user now) \<and>
      category_breakdown sp = category_map (month_transactions d user now) \<and>
      transaction_count sp = length (month_transactions d user now) \<and>
      (month_transactions d user now = [] \<longrightarrow>
         total_nonessential sp = 0 \<and> category_breakdown sp = Map.empty \<and>
         transaction_count sp = 0)"
proof -
  have empty: "category_map [] = Map.empty" "nonessential_sum [] = 0"
    by (simp_all add: category_map_def nonessential_sum_def)
  show ?thesis
    unfolding analyze_spending_pattern_eq
    by (auto simp: empty)
qed

theorem analyze_spending_pattern_totals_witness:
  "month_transactions (sample_db [] []) sample_user sample_now = [] \<and>
   (\<exists>sp. analyze_spending_pattern (sample_db [] []) sample_user sample_now = Inr sp \<and>
      total_nonessential sp = 0 \<and> category_breakdown sp = Map.empty \<and>
      transaction_count sp = 0)"
proof -
  have e: "month_transactions (sample_db [] []) sample_user sample_now = []"
    by (simp add: month_transactions_def sample_db_def)
  from analyze_spending_pattern_totals [of "sample_db [] []" sample_user sample_now]
  obtain sp where "analyze_spending_pattern (sample_db [] []) sample_user sample_now = Inr sp"
    and "month_transactions (sample_db [] []) sample_user sample_now = [] \<longrightarrow>
         total_nonessential sp = 0 \<and> category_breakdown sp = Map.empty \<and>
         transaction_count sp = 0"
    by blast
  with e show ?thesis by blast
qed

section \<open>Recording a transaction\<close>

text \<open>
  C6. Recording a transaction never raises, whatever the category string and whatever
  \<^verbatim>\<open>str.upper\<close> makes of it: the new row is appended with the given amount and merchant,
  and the operation returns that row's record. When the upper-cased string is the name of a
  member of the category set, the row is stored with that member; when it is the name of no
  member, the row is stored with category OTHER.
\<close>

theorem add_transaction_unknown_category:
  "\<exists>c. add_transaction uu d user now amt mer cat =
          Inr (d\<lparr>transactions := transactions d @
                   [\<lparr>transaction_id = next_id (map transaction_id (transactions d)),
                     tx_user_id = user_pk user, amount = amt, merchant = mer,
                     category = c, timestamp = now\<rparr>]\<rparr>,
               \<lparr>ti_transaction_id = next_id (map transaction_id (transactions d)),
                ti_amount = amt, ti_merchant = mer, ti_category = category_value c,
                ti_timestamp = now\<rparr>) \<and>
       (\<forall>m. upper uu cat = category_name m \<longrightarrow> c = m) \<and>
       (upper uu cat \<notin> set category_names \<longrightarrow> c = OTHER)"
proof (intro exI conjI impI allI)
  show "add_transaction uu d user now amt mer cat =
          Inr (d\<lparr>transactions := transactions d @
                   [\<lparr>transaction_id = next_id (map transaction_id (transactions d)),
                     tx_user_id = user_pk user, amount = amt, merchant = mer,
                     category = (case TransactionCategory_getitem (upper uu cat) of
                                   Inr c \<Rightarrow> c | Inl e \<Rightarrow> OTHER),
                     timestamp = now\<rparr>]\<rparr>,
               \<lparr>ti_transaction_id = next_id (map transaction_id (transactions d)),
                ti_amount = amt, ti_merchant = mer,
                ti_category = category_value (case TransactionCategory_getitem (upper uu cat) of
                                                Inr c \<Rightarrow> c | Inl e \<Rightarrow> OTHER),
                ti_timestamp = now\<rparr>)"
    by (rule add_transaction_eq)
next
  fix m assume "upper uu cat = category_name m"
  then show "(case TransactionCategory_getitem (upper uu cat) of
                Inr c \<Rightarrow> c | Inl e \<Rightarrow> OTHER) = m"
    by (simp add: getitem_member)
next
  assume "upper uu cat \<notin> set category_names"
  then show "(case TransactionCategory_getitem (upper uu cat) of
                Inr c \<Rightarrow> c | Inl e \<Rightarrow> OTHER) = OTHER"
    by (simp add: getitem_unknown)
qed

theorem add_transaction_unknown_category_witness:
  "upper sample_unicode_upper ''xyz'' \<notin> set category_names \<and>
   add_transaction sample_unicode_upper (sample_db [] []) sample_user sample_now 250
       ''Cafe'' ''xyz'' =
     Inr (sample_db [] [\<lparr>transaction_id = 1, tx_user_id = 1, amount = 250,
                         merchant = ''Cafe'', category = OTHER, timestamp = sample_now\<rparr>],
          \<lparr>ti_transaction_id = 1, ti_amount = 250, ti_merchant = ''Cafe'',
           ti_category = ''other'', ti_timestamp = sample_now\<rparr>) \<and>
   upper sample_unicode_upper ''Food'' = category_name FOOD \<and>
   add_transaction sample_unicode_upper (sample_db [] []) sample_user sample_now 250
       ''Cafe'' ''Food'' =
     Inr (sample_db [] [\<lparr>transaction_id = 1, tx_user_id = 1, amount = 250,
                         merchant = ''Cafe'', category = FOOD, timestamp = sample_now\<rparr>],
          \<lparr>ti_transaction_id = 1, ti_amount = 250, ti_merchant = ''Cafe'',
           ti_category = ''food'', ti_timestamp = sample_now\<rparr>)"
proof -
  have u: "upper sample_unicode_upper ''xyz'' \<notin> set category_names"
    by code_simp
  have f: "upper sample_unicode_upper ''Food'' = category_name FOOD"
    by code_simp
  from add_transaction_unknown_category
         [of sample_unicode_upper "sample_db [] []" sample_user sample_now 250 "''Cafe''"
             "''xyz''"] u
  have a: "add_transaction sample_unicode_upper (sample_db [] []) sample_user sample_now 250
             ''Cafe'' ''xyz'' =
          Inr ((sample_db [] [])\<lparr>transactions := transactions (sample_db [] []) @
                   [\<lparr>transaction_id = next_id (map transaction_id (transactions (sample_db [] []))),
                     tx_user_id = user_pk sample_user, amount = 250, merchant = ''Cafe'',
                     category = OTHER, timestamp = sample_now\<rparr>]\<rparr>,
               \<lparr>ti_transaction_id = next_id (map transaction_id (transactions (sample_db [] []))),
                ti_amount = 250, ti_merchant = ''Cafe'', ti_category = category_value OTHER,
                ti_timestamp = sample_now\<rparr>)"
    by blast
  from add_transaction_unknown_category
         [of sample_unicode_upper "sample_db [] []" sample_user sample_now 250 "''Cafe''"
             "''Food''"] f
  have b: "add_transaction sample_unicode_upper (sample_db [] []) sample_user sample_now 250
             ''Cafe'' ''Food'' =
          Inr ((sample_db [] [])\<lparr>transactions := transactions (sample_db [] []) @
                   [\<lparr>transaction_id = next_id (map transaction_id (transactions (sample_db [] []))),
                     tx_user_id = user_pk sample_user, amount = 250, merchant = ''Cafe'',
                     category = FOOD, timestamp = sample_now\<rparr>]\<rparr>,
               \<lparr>ti_transaction_id = next_id (map transaction_id (transactions (sample_db [] []))),
                ti_amount = 250, ti_merchant = ''Cafe'', ti_category = category_value FOOD,
                ti_timestamp = sample_now\<rparr>)"
    by blast
  from a b u f show ?thesis
    by (simp add: sample_db_def sample_user_def next_id_def)
qed

text \<open>
  The string \<^verbatim>\<open>xyz\<close> is ASCII, so its upper case is \<^verbatim>\<open>XYZ\<close> whatever the Unicode mappings
  are: it is stored as OTHER.
\<close>

lemma add_transaction_xyz:
  "add_transaction uu (sample_db [] []) sample_user sample_now 250 ''Cafe'' ''xyz'' =
     Inr (sample_db [] [\<lparr>transaction_id = 1, tx_user_id = 1, amount = 250,
                         merchant = ''Cafe'', category = OTHER, timestamp = sample_now\<rparr>],
          \<lparr>ti_transaction_id = 1, ti_amount = 250, ti_merchant = ''Cafe'',
           ti_category = ''other'', ti_timestamp = sample_now\<rparr>)"
proof -
  have u: "upper uu ''xyz'' = ''XYZ''"
    by code_simp
  have k: "TransactionCategory_getitem ''XYZ'' = Inl KeyError"
    by code_simp
  show ?thesis
    unfolding add_transaction_eq u k
    by (simp add: sample_db_def sample_user_def next_id_def)
qed

section \<open>Verdict tiers\<close>

text \<open>
  C1, the claim as it stands fails where target times threshold is 0: there a remaining
  budget of exactly 0 meets the first comparison and the verdict is GREEN, not ORANGE.
\<close>

theorem verdict_zero_boundary_counterexample:
  "check_budget_status (1/2)
     (sample_db [sample_goal 0 (Some 100)] [sample_tx 1 100 SHOPPING (at_day 2024 3 2)])
     sample_user sample_now
   = Inr \<lparr>verdict = ''GREEN'', message = None, label = Some ''on track'',
          total_spent = Some 100, budget = Some 100, remaining = Some 0,
          saving_goal = Some 0, goal_title = Some ''Laptop''\<rparr>"
proof -
  have g: "first_row (active_goals_query
             (sample_db [sample_goal 0 (Some 100)] [sample_tx 1 100 SHOPPING (at_day 2024 3 2)])
             sample_user) = Some (sample_goal 0 (Some 100))"
    by (simp add: first_row_def active_goals_query_def sample_db_def sample_goal_def
        sample_user_def)
  have s: "nonessential_sum (month_transactions
             (sample_db [sample_goal 0 (Some 100)] [sample_tx 1 100 SHOPPING (at_day 2024 3 2)])
             sample_user sample_now) = 100"
    by (simp add: nonessential_sum_def month_transactions_def sample_db_def sample_tx_def
        sample_user_def sample_now_def at_day_def month_start_def dt_ge_def dt_le_def
        dt_fields_def)
  show ?thesis
    unfolding check_budget_status_goal [OF g] s
    by (simp add: sample_goal_def)
qed

text \<open>
  C1, amended. With a target and a threshold that are not negative, and a configured budget
  \<open>b\<close>, the status evaluation returns a result whose remaining budget is the budget minus
  the month's non-essential total, and whose tier is GREEN exactly when the remaining budget
  is at least target times threshold, ORANGE exactly when it is at least 0 and below target
  times threshold, and RED exactly when it is below 0. A remaining budget equal to target
  times threshold is GREEN; a remaining budget of exactly 0 is never RED: it is ORANGE when
  target times threshold is positive and GREEN when that product is 0. The prospective
  evaluation obeys the same rules with the threshold one half.
\<close>

theorem verdict_tiers:
  assumes thr: "0 \<le> threshold"
    and tgt: "0 \<le> target_amount g"
    and g: "first_row (active_goals_query d user) = Some g"
    and b: "month_nonessential_budget g = Some b"
    and r: "r = b - nonessential_sum (month_transactions d user now)"
    and goal: "0 \<le> month_saving_goal u"
    and ra: "ra = user_month_nonessential_budget u - before - td_amount tx"
  shows "(\<exists>st. check_budget_status threshold d user now = Inr st \<and>
            remaining st = Some r \<and>
            (verdict st = ''GREEN'' \<longleftrightarrow> r \<ge> target_amount g * threshold) \<and>
            (verdict st = ''ORANGE'' \<longleftrightarrow> 0 \<le> r \<and> r < target_amount g * threshold) \<and>
            (verdict st = ''RED'' \<longleftrightarrow> r < 0) \<and>
            (r = target_amount g * threshold \<longrightarrow> verdict st = ''GREEN'') \<and>
            (r = 0 \<longrightarrow> verdict st =
               (if 0 < target_amount g * threshold then ''ORANGE'' else ''GREEN'')))
       \<and> (\<exists>vd lbl. evaluate_purchase u tx before = (vd, lbl, ra) \<and>
            (vd = ''GREEN'' \<longleftrightarrow> ra \<ge> month_saving_goal u * 0.5) \<and>
            (vd = ''ORANGE'' \<longleftrightarrow> 0 \<le> ra \<and> ra < month_saving_goal u * 0.5) \<and>
            (vd = ''RED'' \<longleftrightarrow> ra < 0) \<and>
            (ra = month_saving_goal u * 0.5 \<longrightarrow> vd = ''GREEN'') \<and>
            (ra = 0 \<longrightarrow> vd = (if 0 < month_saving_goal u * 0.5 then ''ORANGE'' else ''GREEN'')))"
proof (rule conjI)
  have p: "0 \<le> target_amount g * threshold"
    using thr tgt by (rule mult_nonneg_nonneg [rotated])
  consider (green) "r \<ge> target_amount g * threshold"
    | (orange) "r < target_amount g * threshold" "0 \<le> r"
    | (red) "r < target_amount g * threshold" "r < 0"
    by linarith
  then show "\<exists>st. check_budget_status threshold d user now = Inr st \<and>
            remaining st = Some r \<and>
            (verdict st = ''GREEN'' \<longleftrightarrow> r \<ge> target_amount g * threshold) \<and>
            (verdict st = ''ORANGE'' \<longleftrightarrow> 0 \<le> r \<and> r < target_amount g * threshold) \<and>
            (verdict st = ''RED'' \<longleftrightarrow> r < 0) \<and>
            (r = target_amount g * threshold \<longrightarrow> verdict st = ''GREEN'') \<and>
            (r = 0 \<longrightarrow> verdict st =
               (if 0 < target_amount g * threshold then ''ORANGE'' else ''GREEN''))"
  proof cases
    case green
    with p show ?thesis
      unfolding check_budget_status_goal [OF g] Let_def b or_zero_Some r [symmetric]
      by auto
  next
    case orange
    with p show ?thesis
      unfolding check_budget_status_goal [OF g] Let_def b or_zero_Some r [symmetric]
      by auto
  next
    case red
    with p show ?thesis
      unfolding check_budget_status_goal [OF g] Let_def b or_zero_Some r [symmetric]
      by auto
  qed
next
  have q: "0 \<le> month_saving_goal u * 0.5"
    using goal by simp
  consider (green) "ra \<ge> month_saving_goal u * 0.5"
    | (orange) "ra < month_saving_goal u * 0.5" "0 \<le> ra"
    | (red) "ra < month_saving_goal u * 0.5" "ra < 0"
    by linarith
  then show "\<exists>vd lbl. evaluate_purchase u tx before = (vd, lbl, ra) \<and>
            (vd = ''GREEN'' \<longleftrightarrow> ra \<ge> month_saving_goal u * 0.5) \<and>
            (vd = ''ORANGE'' \<longleftrightarrow> 0 \<le> ra \<and> ra < month_saving_goal u * 0.5) \<and>
            (vd = ''RED'' \<longleftrightarrow> ra < 0) \<and>
            (ra = month_saving_goal u * 0.5 \<longrightarrow> vd = ''GREEN'') \<and>
            (ra = 0 \<longrightarrow> vd = (if 0 < month_saving_goal u * 0.5 then ''ORANGE'' else ''GREEN''))"
  proof cases
    case green
    with q show ?thesis
      unfolding evaluate_purchase_def Let_def ra [symmetric]
      by auto
  next
    case orange
    with q show ?thesis
      unfolding evaluate_purchase_def Let_def ra [symmetric]
      by auto
  next
    case red
    with q show ?thesis
      unfolding evaluate_purchase_def Let_def ra [symmetric]
      by auto
  qed
qed

theorem verdict_tiers_witness:
  "(0::real) \<le> 1/2 \<and> 0 \<le> target_amount (sample_goal 10000 (Some 5000)) \<and>
   first_row (active_goals_query
      (sample_db [sample_goal 10000 (Some 5000)] [sample_tx 1 4800 FOOD (at_day 2024 3 2)])
      sample_user) = Some (sample_goal 10000 (Some 5000)) \<and>
   month_nonessential_budget (sample_goal 10000 (Some 5000)) = Some 5000 \<and>
   (200::real) = 5000 - nonessential_sum (month_transactions
      (sample_db [sample_goal 10000 (Some 5000)] [sample_tx 1 4800 FOOD (at_day 2024 3 2)])
      sample_user sample_now) \<and>
   0 \<le> month_saving_goal \<lparr>month_saving_goal = 10000, user_month_nonessential_budget = 5000\<rparr> \<and>
   (\<exists>st. check_budget_status (1/2)
      (sample_db [sample_goal 10000 (Some 5000)] [sample_tx 1 4800 FOOD (at_day 2024 3 2)])
      sample_user sample_now = Inr st \<and> remaining st = Some 200 \<and> verdict st = ''ORANGE'') \<and>
   (\<exists>lbl. evaluate_purchase \<lparr>month_saving_goal = 10000, user_month_nonessential_budget = 5000\<rparr>
      \<lparr>td_amount = 900, td_merchant = ''Store'', td_category = ''food'',
       td_timestamp = sample_now\<rparr> 4000 = (''ORANGE'', lbl, 100))"
proof -
  let ?d = "sample_db [sample_goal 10000 (Some 5000)] [sample_tx 1 4800 FOOD (at_day 2024 3 2)]"
  let ?u = "\<lparr>month_saving_goal = 10000, user_month_nonessential_budget = 5000\<rparr>"
  let ?tx = "\<lparr>td_amount = 900, td_merchant = ''Store'', td_category = ''food'',
              td_timestamp = sample_now\<rparr>"
  have h1: "(0::real) \<le> 1/2" by simp
  have h2: "0 \<le> target_amount (sample_goal 10000 (Some 5000))"
    by (simp add: sample_goal_def)
  have h3: "first_row (active_goals_query ?d sample_user) = Some (sample_goal 10000 (Some 5000))"
    by (simp add: first_row_def active_goals_query_def sample_db_def sample_goal_def
        sample_user_def)
  have h4: "month_nonessential_budget (sample_goal 10000 (Some 5000)) = Some 5000"
    by (simp add: sample_goal_def)
  have h5: "(200::real) = 5000 - nonessential_sum (month_transactions ?d sample_user sample_now)"
    by (simp add: nonessential_sum_def month_transactions_def sample_db_def sample_tx_def
        sample_user_def sample_now_def at_day_def month_start_def dt_ge_def dt_le_def
        dt_fields_def)
  have h6: "0 \<le> month_saving_goal ?u" by simp
  have h7: "(100::real) = user_month_nonessential_budget ?u - 4000 - td_amount ?tx" by simp
  have t: "target_amount (sample_goal 10000 (Some 5000)) * (1/2) = 5000"
    by (simp add: sample_goal_def)
  from verdict_tiers [OF h1 h2 h3 h4 h5 h6 h7]
  have "(\<exists>st. check_budget_status (1/2) ?d sample_user sample_now = Inr st \<and>
            remaining st = Some 200 \<and> verdict st = ''ORANGE'')
      \<and> (\<exists>lbl. evaluate_purchase ?u ?tx 4000 = (''ORANGE'', lbl, 100))"
    unfolding t by auto
  with h1 h2 h3 h4 h5 h6 show ?thesis by blast
qed

section \<open>The NO_GOAL tier\<close>

text \<open>
  C3, the claim as it stands fails for an active goal without a configured budget: the
  missing budget is read as 0 and the verdict is a numeric tier, here ORANGE.
\<close>

theorem missing_budget_counterexample:
  "month_nonessential_budget (sample_goal 10000 None) = None \<and>
   check_budget_status (1/2) (sample_db [sample_goal 10000 None] []) sample_user sample_now
   = Inr \<lparr>verdict = ''ORANGE'', message = None, label = Some ''borderline'',
          total_spent = Some 0, budget = Some 0, remaining = Some 0,
          saving_goal = Some 10000, goal_title = Some ''Laptop''\<rparr>"
proof -
  have g: "first_row (active_goals_query (sample_db [sample_goal 10000 None] []) sample_user)
             = Some (sample_goal 10000 None)"
    by (simp add: first_row_def active_goals_query_def sample_db_def sample_goal_def
        sample_user_def)
  have s: "nonessential_sum (month_transactions (sample_db [sample_goal 10000 None] [])
             sample_user sample_now) = 0"
    by (simp add: nonessential_sum_def month_transactions_def sample_db_def)
  show ?thesis
    unfolding check_budget_status_goal [OF g] s
    by (simp add: sample_goal_def)
qed

text \<open>
  C3, amended. The status evaluation never raises, and it returns the NO_GOAL tier exactly
  when the user has no active goal; that result is produced before the remaining budget is
  computed and carries no number. An active goal whose budget is not configured is
  evaluated with the budget 0: the remaining budget is minus the month's non-essential
  total and the tier is GREEN, ORANGE or RED.
\<close>

theorem no_goal_iff_no_active_goal:
  "\<exists>st. check_budget_status threshold d user now = Inr st \<and>
      (verdict st = ''NO_GOAL'' \<longleftrightarrow> first_row (active_goals_query d user) = None) \<and>
      (verdict st = ''NO_GOAL'' \<longrightarrow>
         total_spent st = None \<and> budget st = None \<and> remaining st = None \<and>
         saving_goal st = None) \<and>
      (\<forall>g. first_row (active_goals_query d user) = Some g \<and>
             month_nonessential_budget g = None \<longrightarrow>
           budget st = Some 0 \<and>
           remaining st = Some (0 - nonessential_sum (month_transactions d user now)) \<and>
           verdict st \<in> {''GREEN'', ''ORANGE'', ''RED''})"
proof (cases "first_row (active_goals_query d user)")
  case None
  then show ?thesis
    by (simp add: check_budget_status_no_goal)
next
  case (Some g)
  then show ?thesis
    unfolding check_budget_status_goal [OF Some] Let_def
    by (cases "month_nonessential_budget g") auto
qed

theorem no_goal_iff_no_active_goal_witness:
  "first_row (active_goals_query (sample_db [] []) sample_user) = None \<and>
   (\<exists>st. check_budget_status (1/2) (sample_db [] []) sample_user sample_now = Inr st \<and>
      verdict st = ''NO_GOAL'' \<and> remaining st = None) \<and>
   first_row (active_goals_query (sample_db [sample_goal 10000 None] []) sample_user)
     = Some (sample_goal 10000 None) \<and>
   month_nonessential_budget (sample_goal 10000 None) = None \<and>
   (\<exists>st. check_budget_status (1/2) (sample_db [sample_goal 10000 None] []) sample_user
            sample_now = Inr st \<and>
      verdict st \<noteq> ''NO_GOAL'' \<and> budget st = Some 0 \<and>
      verdict st \<in> {''GREEN'', ''ORANGE'', ''RED''})"
proof -
  have n: "first_row (active_goals_query (sample_db [] []) sample_user) = None"
    by (simp add: first_row_def active_goals_query_def sample_db_def)
  have g: "first_row (active_goals_query (sample_db [sample_goal 10000 None] []) sample_user)
             = Some (sample_goal 10000 None)"
    by (simp add: first_row_def active_goals_query_def sample_db_def sample_goal_def
        sample_user_def)
  have b: "month_nonessential_budget (sample_goal 10000 None) = None"
    by (simp add: sample_goal_def)
  from no_goal_iff_no_active_goal [of "1/2" "sample_db [] []" sample_user sample_now] n
  have a1: "\<exists>st. check_budget_status (1/2) (sample_db [] []) sample_user sample_now = Inr st \<and>
      verdict st = ''NO_GOAL'' \<and> remaining st = None"
    by auto
  from no_goal_iff_no_active_goal
         [of "1/2" "sample_db [sample_goal 10000 None] []" sample_user sample_now] g b
  have a2: "\<exists>st. check_budget_status (1/2) (sample_db [sample_goal 10000 None] []) sample_user
            sample_now = Inr st \<and>
      verdict st \<noteq> ''NO_GOAL'' \<and> budget st = Some 0 \<and>
      verdict st \<in> {''GREEN'', ''ORANGE'', ''RED''}"
    by auto
  from n a1 g b a2 show ?thesis by blast
qed

section \<open>A budget of exactly zero\<close>

text \<open>
  C10, the claim as it stands fails where the verdict is said to be RED or ORANGE: with a
  budget of 0, a target of 0 and nothing spent, the remaining budget 0 meets the first
  comparison and the verdict is GREEN.
\<close>

theorem zero_budget_counterexample:
  "month_nonessential_budget (sample_goal 0 (Some 0)) = Some 0 \<and>
   check_budget_status (1/2) (sample_db [sample_goal 0 (Some 0)] []) sample_user sample_now
   = Inr \<lparr>verdict = ''GREEN'', message = None, label = Some ''on track'',
          total_spent = Some 0, budget = Some 0, remaining = Some 0,
          saving_goal = Some 0, goal_title = Some ''Laptop''\<rparr>"
proof -
  have g: "first_row (active_goals_query (sample_db [sample_goal 0 (Some 0)] []) sample_user)
             = Some (sample_goal 0 (Some 0))"
    by (simp add: first_row_def active_goals_query_def sample_db_def sample_goal_def
        sample_user_def)
  have s: "nonessential_sum (month_transactions (sample_db [sample_goal 0 (Some 0)] [])
             sample_user sample_now) = 0"
    by (simp add: nonessential_sum_def month_transactions_def sample_db_def)
  show ?thesis
    unfolding check_budget_status_goal [OF g] s
    by (simp add: sample_goal_def)
qed

text \<open>
  C10, amended. When the active goal's budget is exactly 0, the spending analysis reports the
  budget 0 but a remaining budget of \<open>None\<close>, as it does when no budget is configured, while
  the status evaluation for the same state takes the budget as the number 0, computes the
  remaining budget 0 minus the total spent and returns a numeric tier (GREEN, ORANGE or RED,
  never NO_GOAL). The tier is RED or ORANGE whenever the total spent is not negative and
  target times threshold is positive.
\<close>

theorem zero_budget_read_paths_disagree:
  assumes g: "first_row (active_goals_query d user) = Some g"
    and b: "month_nonessential_budget g = Some 0"
  shows "\<exists>sp st. analyze_spending_pattern d user now = Inr sp \<and>
           sp_month_nonessential_budget sp = Some 0 \<and>
           remaining_budget sp = None \<and>
           check_budget_status threshold d user now = Inr st \<and>
           budget st = Some 0 \<and>
           remaining st = Some (0 - total_nonessential sp) \<and>
           verdict st \<in> {''GREEN'', ''ORANGE'', ''RED''} \<and>
           (0 \<le> total_nonessential sp \<and> 0 < target_amount g * threshold \<longrightarrow>
              verdict st \<in> {''ORANGE'', ''RED''})"
  using b
  unfolding check_budget_status_goal [OF g] analyze_spending_pattern_eq Let_def g
  by auto

theorem zero_budget_read_paths_disagree_witness:
  "first_row (active_goals_query
      (sample_db [sample_goal 10000 (Some 0)] [sample_tx 1 300 SHOPPING (at_day 2024 3 2)])
      sample_user) = Some (sample_goal 10000 (Some 0)) \<and>
   month_nonessential_budget (sample_goal 10000 (Some 0)) = Some 0 \<and>
   (\<exists>sp st. analyze_spending_pattern
        (sample_db [sample_goal 10000 (Some 0)] [sample_tx 1 300 SHOPPING (at_day 2024 3 2)])
        sample_user sample_now = Inr sp \<and>
      total_nonessential sp = 300 \<and> remaining_budget sp = None \<and>
      check_budget_status (1/2)
        (sample_db [sample_goal 10000 (Some 0)] [sample_tx 1 300 SHOPPING (at_day 2024 3 2)])
        sample_user sample_now = Inr st \<and>
      remaining st = Some (- 300) \<and> verdict st \<in> {''ORANGE'', ''RED''})"
proof -
  let ?d = "sample_db [sample_goal 10000 (Some 0)] [sample_tx 1 300 SHOPPING (at_day 2024 3 2)]"
  have g: "first_row (active_goals_query ?d sample_user) = Some (sample_goal 10000 (Some 0))"
    by (simp add: first_row_def active_goals_query_def sample_db_def sample_goal_def
        sample_user_def)
  have b: "month_nonessential_budget (sample_goal 10000 (Some 0)) = Some 0"
    by (simp add: sample_goal_def)
  have s: "nonessential_sum (month_transactions ?d sample_user sample_now) = 300"
    by (simp add: nonessential_sum_def month_transactions_def sample_db_def sample_tx_def
        sample_user_def sample_now_def at_day_def month_start_def dt_ge_def dt_le_def
        dt_fields_def)
  have t: "0 < target_amount (sample_goal 10000 (Some 0)) * (1/2)"
    by (simp add: sample_goal_def)
  from zero_budget_read_paths_disagree [OF g b, of sample_now "1/2"]
  obtain sp st where a: "analyze_spending_pattern ?d sample_user sample_now = Inr sp"
    and r: "remaining_budget sp = None"
    and c: "check_budget_status (1/2) ?d sample_user sample_now = Inr st"
    and m: "remaining st = Some (0 - total_nonessential sp)"
    and v: "0 \<le> total_nonessential sp \<and> 0 < target_amount (sample_goal 10000 (Some 0)) * (1/2)
              \<longrightarrow> verdict st \<in> {''ORANGE'', ''RED''}"
    by blast
  from a have ts: "total_nonessential sp = 300"
    unfolding analyze_spending_pattern_eq s by auto
  from v t ts have "verdict st \<in> {''ORANGE'', ''RED''}" by simp
  with a r c m ts g b show ?thesis by auto
qed

section \<open>Prospective and retrospective evaluation\<close>

text \<open>
  C2, the claim as it stands fails when the configured threshold is not one half: the
  prospective evaluation compares against half the target whatever the setting. With the
  threshold one quarter, a budget of 5000, a target of 10000, 1000 spent before and a
  purchase of 1000, the persisted state is GREEN and the prospective verdict ORANGE.
\<close>

theorem prospective_retrospective_counterexample:
  "check_budget_status (1/4)
     (sample_db [sample_goal 10000 (Some 5000)]
        [sample_tx 1 1000 SHOPPING (at_day 2024 3 2), sample_tx 2 1000 SHOPPING (at_day 2024 3 5)])
     sample_user sample_now
   = Inr \<lparr>verdict = ''GREEN'', message = None, label = Some ''on track'',
          total_spent = Some (1000 + 1000), budget = Some 5000, remaining = Some 3000,
          saving_goal = Some 10000, goal_title = Some ''Laptop''\<rparr> \<and>
   evaluate_purchase \<lparr>month_saving_goal = 10000, user_month_nonessential_budget = 5000\<rparr>
     \<lparr>td_amount = 1000, td_merchant = ''Store'', td_category = ''shopping'',
      td_timestamp = at_day 2024 3 5\<rparr> 1000
   = (''ORANGE'', ''borderline for your saving goal'', 3000)"
proof -
  let ?d = "sample_db [sample_goal 10000 (Some 5000)]
        [sample_tx 1 1000 SHOPPING (at_day 2024 3 2), sample_tx 2 1000 SHOPPING (at_day 2024 3 5)]"
  have g: "first_row (active_goals_query ?d sample_user) = Some (sample_goal 10000 (Some 5000))"
    by (simp add: first_row_def active_goals_query_def sample_db_def sample_goal_def
        sample_user_def)
  have s: "nonessential_sum (month_transactions ?d sample_user sample_now) = 2000"
    by (simp add: nonessential_sum_def month_transactions_def sample_db_def sample_tx_def
        sample_user_def sample_now_def at_day_def month_start_def dt_ge_def dt_le_def
        dt_fields_def)
  have c: "check_budget_status (1/4) ?d sample_user sample_now
   = Inr \<lparr>verdict = ''GREEN'', message = None, label = Some ''on track'',
          total_spent = Some (1000 + 1000), budget = Some 5000, remaining = Some 3000,
          saving_goal = Some 10000, goal_title = Some ''Laptop''\<rparr>"
    unfolding check_budget_status_goal [OF g] s
    by (simp add: sample_goal_def)
  have e: "evaluate_purchase \<lparr>month_saving_goal = 10000, user_month_nonessential_budget = 5000\<rparr>
     \<lparr>td_amount = 1000, td_merchant = ''Store'', td_category = ''shopping'',
      td_timestamp = at_day 2024 3 5\<rparr> 1000
   = (''ORANGE'', ''borderline for your saving goal'', 3000)"
    by (simp add: evaluate_purchase_def)
  from c e show ?thesis by (rule conjI)
qed

text \<open>
  C2, amended. When the configured threshold is one half, the value the prospective
  evaluation has built in, the two forms apply the same rule to the remaining budget each
  computes: for a budget \<open>b\<close>, a target, a total before the purchase \<open>T\<close> and a purchase
  \<open>tx\<close>, the prospective evaluation returns the tier that the status evaluation returns on
  a persisted state, whenever the remaining budget of the one, \<open>(b - T)\<close> minus the amount,
  and of the other, \<open>b\<close> minus the persisted month total, are the same number. With a
  persisted total of \<open>T\<close> plus the amount the two are equal in exact arithmetic; the program
  computes them by different floating-point expressions, whose results can differ.
\<close>

theorem prospective_matches_retrospective:
  assumes g: "first_row (active_goals_query d user) = Some g"
    and b: "month_nonessential_budget g = Some b"
    and same: "b - nonessential_sum (month_transactions d user now) = b - T - td_amount tx"
  shows "\<exists>st. check_budget_status (1/2) d user now = Inr st \<and>
           verdict st =
             fst (evaluate_purchase
                    \<lparr>month_saving_goal = target_amount g, user_month_nonessential_budget = b\<rparr>
                    tx T)"
  unfolding check_budget_status_goal [OF g] Let_def b or_zero_Some same evaluate_purchase_def
  by simp

theorem prospective_matches_retrospective_witness:
  "first_row (active_goals_query
      (sample_db [sample_goal 10000 (Some 5000)]
         [sample_tx 1 4000 SHOPPING (at_day 2024 3 2), sample_tx 2 900 FOOD (at_day 2024 3 5)])
      sample_user) = Some (sample_goal 10000 (Some 5000)) \<and>
   month_nonessential_budget (sample_goal 10000 (Some 5000)) = Some 5000 \<and>
   5000 - nonessential_sum (month_transactions
      (sample_db [sample_goal 10000 (Some 5000)]
         [sample_tx 1 4000 SHOPPING (at_day 2024 3 2), sample_tx 2 900 FOOD (at_day 2024 3 5)])
      sample_user sample_now)
     = 5000 - 4000 - td_amount \<lparr>td_amount = 900, td_merchant = ''Store'',
                                 td_category = ''food'', td_timestamp = at_day 2024 3 5\<rparr> \<and>
   (\<exists>st. check_budget_status (1/2)
      (sample_db [sample_goal 10000 (Some 5000)]
         [sample_tx 1 4000 SHOPPING (at_day 2024 3 2), sample_tx 2 900 FOOD (at_day 2024 3 5)])
      sample_user sample_now = Inr st \<and>
      verdict st = ''ORANGE'') \<and>
   fst (evaluate_purchase \<lparr>month_saving_goal = 10000, user_month_nonessential_budget = 5000\<rparr>
          \<lparr>td_amount = 900, td_merchant = ''Store'', td_category = ''food'',
           td_timestamp = at_day 2024 3 5\<rparr> 4000) = ''ORANGE''"
proof -
  let ?d = "sample_db [sample_goal 10000 (Some 5000)]
         [sample_tx 1 4000 SHOPPING (at_day 2024 3 2), sample_tx 2 900 FOOD (at_day 2024 3 5)]"
  let ?tx = "\<lparr>td_amount = 900, td_merchant = ''Store'', td_category = ''food'',
              td_timestamp = at_day 2024 3 5\<rparr>"
  have g: "first_row (active_goals_query ?d sample_user) = Some (sample_goal 10000 (Some 5000))"
    by (simp add: first_row_def active_goals_query_def sample_db_def sample_goal_def
        sample_user_def)
  have b: "month_nonessential_budget (sample_goal 10000 (Some 5000)) = Some 5000"
    by (simp add: sample_goal_def)
  have s: "5000 - nonessential_sum (month_transactions ?d sample_user sample_now)
             = 5000 - 4000 - td_amount ?tx"
    by (simp add: nonessential_sum_def month_transactions_def sample_db_def sample_tx_def
        sample_user_def sample_now_def at_day_def month_start_def dt_ge_def dt_le_def
        dt_fields_def)
  have t: "target_amount (sample_goal 10000 (Some 5000)) = 10000"
    by (simp add: sample_goal_def)
  have e: "fst (evaluate_purchase
             \<lparr>month_saving_goal = 10000, user_month_nonessential_budget = 5000\<rparr> ?tx 4000)
           = ''ORANGE''"
    by (simp add: evaluate_purchase_def)
  from prospective_matches_retrospective [OF g b s]
  have "\<exists>st. check_budget_status (1/2) ?d sample_user sample_now = Inr st \<and>
      verdict st = ''ORANGE''"
    unfolding t e by simp
  with g b s e show ?thesis by blast
qed

section \<open>The monthly window\<close>


text \<open>
  Towards the past the window is as documented: a transaction of an earlier month is never
  among those the analysis reads, whatever else the ledger holds.
\<close>

lemma earlier_month_never_counted:
  assumes "valid_datetime (timestamp t)"
    and "year (timestamp t) < year now
         \<or> (year (timestamp t) = year now \<and> month (timestamp t) < month now)"
  shows "t \<notin> set (month_transactions d user now)"
  using assms
  by (auto simp: month_transactions_def dt_ge_month_start)

text \<open>
  And a transaction stamped no later than \<open>now\<close> is read exactly when it is the user's and
  lies in the calendar month of \<open>now\<close>, from its first instant up to, but not including,
  the first instant of the next month.
\<close>

lemma past_transaction_counted_iff_in_month:
  assumes "valid_datetime now" and "valid_datetime (timestamp t)"
    and "dt_le (timestamp t) now"
  shows "t \<in> set (month_transactions d user now) \<longleftrightarrow>
           t \<in> set (transactions d) \<and> tx_user_id t = user_pk user \<and>
           spec_in_calendar_month now (timestamp t)"
  using window_is_calendar_month [OF assms(2) assms(1) assms(3)]
  by (auto simp: month_transactions_def)

section \<open>Amounts are not validated\<close>

text \<open>
  C7, the claim as it stands fails: a request with the amount -5 is accepted, no failure is
  reported and the transaction is appended to the ledger with that amount.
\<close>

theorem negative_amount_counterexample:
  "add_transaction sample_unicode_upper (sample_db [] []) sample_user sample_now (- 5)
       ''Store'' ''shopping'' =
     Inr (sample_db [] [\<lparr>transaction_id = 1, tx_user_id = 1, amount = - 5,
                         merchant = ''Store'', category = SHOPPING, timestamp = sample_now\<rparr>],
          \<lparr>ti_transaction_id = 1, ti_amount = - 5, ti_merchant = ''Store'',
           ti_category = ''shopping'', ti_timestamp = sample_now\<rparr>)"
proof -
  have c: "TransactionCategory_getitem (upper sample_unicode_upper ''shopping'') = Inr SHOPPING"
    by code_simp
  show ?thesis
    unfolding add_transaction_eq c
    by (simp add: sample_db_def sample_user_def next_id_def)
qed

text \<open>
  C7, amended. Recording a transaction does not validate the amount. For every request with
  a negative amount the operation reports no failure: it appends exactly one transaction,
  carrying the amount as given, to the ledger, leaves every earlier row as it was, and
  returns the record of the new transaction.
\<close>

theorem add_transaction_accepts_negative_amount:
  assumes "amt < 0"
  shows "\<exists>d' info. add_transaction uu d user now amt mer cat = Inr (d', info) \<and>
           ti_amount info = amt \<and> ti_merchant info = mer \<and>
           length (transactions d') = Suc (length (transactions d)) \<and>
           butlast (transactions d') = transactions d \<and>
           amount (last (transactions d')) = amt \<and>
           transaction_id (last (transactions d')) = ti_transaction_id info \<and>
           users d' = users d \<and> goals d' = goals d"
  unfolding add_transaction_eq
  by simp

theorem add_transaction_accepts_negative_amount_witness:
  "(- 5 :: real) < 0 \<and>
   (\<exists>d' info. add_transaction sample_unicode_upper (sample_db [] []) sample_user sample_now
                 (- 5) ''Store'' ''food'' = Inr (d', info) \<and>
      ti_amount info = - 5 \<and> length (transactions d') = 1 \<and>
      amount (last (transactions d')) = - 5)"
proof -
  have n: "(- 5 :: real) < 0" by simp
  from add_transaction_accepts_negative_amount
         [OF n, of sample_unicode_upper "sample_db [] []" sample_user sample_now "''Store''"
             "''food''"]
  obtain d' info where
    a: "add_transaction sample_unicode_upper (sample_db [] []) sample_user sample_now (- 5)
          ''Store'' ''food'' = Inr (d', info)"
    and i: "ti_amount info = - 5"
    and l: "length (transactions d') = Suc (length (transactions (sample_db [] [])))"
    and m: "amount (last (transactions d')) = - 5"
    by blast
  from l have "length (transactions d') = 1"
    by (simp add: sample_db_def)
  with a i m
  have "\<exists>d' info. add_transaction sample_unicode_upper (sample_db [] []) sample_user
                 sample_now (- 5) ''Store'' ''food'' = Inr (d', info) \<and>
      ti_amount info = - 5 \<and> length (transactions d') = 1 \<and>
      amount (last (transactions d')) = - 5"
    by blast
  with n show ?thesis by (rule conjI)
qed

section \<open>Active goals\<close>

text \<open>
  C8, the claim as it stands fails: setting a goal twice leaves two ACTIVE goals, and the
  list of active goals returns both, the older one first.
\<close>

theorem two_active_goals_counterexample:
  "set_saving_goal (sample_db [] []) sample_user sample_now ''Laptop'' 50000 None (Some 5000)
   = Inr (sample_db [\<lparr>goal_id = 1, goal_user_id = 1, title = ''Laptop'',
                       target_amount = 50000, deadline = None,
                       month_nonessential_budget = Some 5000, status = ACTIVE,
                       current_amount = 0\<rparr>] [],
          \<lparr>gc_goal_id = 1, gc_title = ''Laptop'', gc_target_amount = 50000,
           gc_deadline = None, gc_status = ''active''\<rparr>)
   \<and> map_sum id (\<lambda>r. get_active_goals (fst r) sample_user)
       (set_saving_goal
          (sample_db [\<lparr>goal_id = 1, goal_user_id = 1, title = ''Laptop'',
                        target_amount = 50000, deadline = None,
                        month_nonessential_budget = Some 5000, status = ACTIVE,
                        current_amount = 0\<rparr>] [])
          sample_user sample_now ''Phone'' 20000 None (Some 3000))
   = Inr [\<lparr>gi_goal_id = 1, gi_title = ''Laptop'', gi_target_amount = 50000,
           gi_current_amount = 0, gi_progress_percentage = 0, gi_deadline = None,
           gi_month_nonessential_budget = Some 5000\<rparr>,
          \<lparr>gi_goal_id = 2, gi_title = ''Phone'', gi_target_amount = 20000,
           gi_current_amount = 0, gi_progress_percentage = 0, gi_deadline = None,
           gi_month_nonessential_budget = Some 3000\<rparr>]"
proof -
  have r: "deadline_in_range sample_now None"
    by (simp add: deadline_in_range_def)
  have one: "get_active_goals
               (sample_db [\<lparr>goal_id = 1, goal_user_id = 1, title = ''Laptop'',
                        target_amount = 50000, deadline = None,
                        month_nonessential_budget = Some 5000, status = ACTIVE,
                        current_amount = 0\<rparr>] []) sample_user
             = [\<lparr>gi_goal_id = 1, gi_title = ''Laptop'', gi_target_amount = 50000,
                 gi_current_amount = 0, gi_progress_percentage = 0, gi_deadline = None,
                 gi_month_nonessential_budget = Some 5000\<rparr>]"
    by (simp add: get_active_goals_def active_goals_query_def goal_to_info_def
        progress_percentage_def sample_db_def sample_user_def)
  show ?thesis
    unfolding set_saving_goal_ok [OF r] get_active_goals_append map_sum.simps fst_conv one
    by (simp add: sample_db_def sample_user_def next_id_def)
qed

text \<open>
  C8, amended. Setting a saving goal raises only when the requested deadline cannot be
  computed (it falls outside the years 1 to 9999), and then creates nothing. Otherwise it
  creates a new goal with status ACTIVE and never replaces or deactivates an earlier one:
  the list of active goals returned afterwards is the list returned before with the new
  goal appended. After any sequence of set-goal operations the user therefore has one more
  ACTIVE goal for each operation that completed, and the list of active goals contains all
  of them in the order they were set, the most recently set goal last.
\<close>

theorem set_saving_goal_appends_active_goal:
  "(deadline_in_range now dl \<longrightarrow>
      (\<exists>d' r. set_saving_goal d user now ttl target dl bud = Inr (d', r) \<and>
         gc_title r = ttl \<and> gc_target_amount r = target \<and>
         get_active_goals d' user =
           get_active_goals d user @
             [\<lparr>gi_goal_id = gc_goal_id r, gi_title = ttl, gi_target_amount = target,
               gi_current_amount = 0, gi_progress_percentage = 0,
               gi_deadline = (case dl of None \<Rightarrow> None
                              | Some n \<Rightarrow> if n \<noteq> 0 then Some (now, n) else None),
               gi_month_nonessential_budget = bud\<rparr>]))
   \<and> (\<not> deadline_in_range now dl \<longrightarrow>
        set_saving_goal d user now ttl target dl bud = Inl OverflowError)
   \<and> map (\<lambda>i. (gi_title i, gi_target_amount i, gi_month_nonessential_budget i))
       (get_active_goals (set_saving_goals d user reqs) user) =
     map (\<lambda>i. (gi_title i, gi_target_amount i, gi_month_nonessential_budget i))
       (get_active_goals d user)
     @ map (\<lambda>rq. (rq_title rq, rq_target_amount rq, rq_month_nonessential_budget rq))
         (filter (\<lambda>rq. deadline_in_range (rq_now rq) (rq_deadline_days rq)) reqs)
   \<and> length (get_active_goals (set_saving_goals d user reqs) user) =
       length (get_active_goals d user)
       + length (filter (\<lambda>rq. deadline_in_range (rq_now rq) (rq_deadline_days rq)) reqs)"
proof (intro conjI impI)
  assume ok: "deadline_in_range now dl"
  show "\<exists>d' r. set_saving_goal d user now ttl target dl bud = Inr (d', r) \<and>
         gc_title r = ttl \<and> gc_target_amount r = target \<and>
         get_active_goals d' user =
           get_active_goals d user @
             [\<lparr>gi_goal_id = gc_goal_id r, gi_title = ttl, gi_target_amount = target,
               gi_current_amount = 0, gi_progress_percentage = 0,
               gi_deadline = (case dl of None \<Rightarrow> None
                              | Some n \<Rightarrow> if n \<noteq> 0 then Some (now, n) else None),
               gi_month_nonessential_budget = bud\<rparr>]"
    unfolding set_saving_goal_ok [OF ok]
    by (simp add: get_active_goals_append)
next
  assume "\<not> deadline_in_range now dl"
  then show "set_saving_goal d user now ttl target dl bud = Inl OverflowError"
    by (rule set_saving_goal_overflow)
next
  show "map (\<lambda>i. (gi_title i, gi_target_amount i, gi_month_nonessential_budget i))
       (get_active_goals (set_saving_goals d user reqs) user) =
     map (\<lambda>i. (gi_title i, gi_target_amount i, gi_month_nonessential_budget i))
       (get_active_goals d user)
     @ map (\<lambda>rq. (rq_title rq, rq_target_amount rq, rq_month_nonessential_budget rq))
         (filter (\<lambda>rq. deadline_in_range (rq_now rq) (rq_deadline_days rq)) reqs)"
    by (rule get_active_goals_sequence)
next
  show "length (get_active_goals (set_saving_goals d user reqs) user) =
       length (get_active_goals d user)
       + length (filter (\<lambda>rq. deadline_in_range (rq_now rq) (rq_deadline_days rq)) reqs)"
    using arg_cong [OF get_active_goals_sequence [of d user reqs], of length]
    by simp
qed

theorem set_saving_goal_appends_active_goal_witness:
  "deadline_in_range sample_now (Some 30) \<and>
   map_sum id (\<lambda>r. get_active_goals (fst r) sample_user)
     (set_saving_goal (sample_db [sample_goal 10000 (Some 5000)] []) sample_user sample_now
        ''Phone'' 20000 (Some 30) (Some 3000))
   = Inr [goal_to_info (sample_goal 10000 (Some 5000)),
          \<lparr>gi_goal_id = 2, gi_title = ''Phone'', gi_target_amount = 20000,
           gi_current_amount = 0, gi_progress_percentage = 0,
           gi_deadline = Some (sample_now, 30),
           gi_month_nonessential_budget = Some 3000\<rparr>] \<and>
   \<not> deadline_in_range sample_now (Some 3000000) \<and>
   set_saving_goal (sample_db [sample_goal 10000 (Some 5000)] []) sample_user sample_now
     ''Phone'' 20000 (Some 3000000) (Some 3000) = Inl OverflowError"
proof -
  let ?d = "sample_db [sample_goal 10000 (Some 5000)] []"
  have o: "toordinal sample_now = 738960"
    by code_simp
  have ok: "deadline_in_range sample_now (Some 30)"
    by (simp add: deadline_in_range_def o)
  have bad: "\<not> deadline_in_range sample_now (Some 3000000)"
    by (simp add: deadline_in_range_def o)
  have old: "get_active_goals ?d sample_user = [goal_to_info (sample_goal 10000 (Some 5000))]"
    by (simp add: get_active_goals_def active_goals_query_def sample_db_def sample_goal_def
        sample_user_def)
  from set_saving_goal_appends_active_goal
         [of sample_now "Some 30" ?d sample_user "''Phone''" 20000 "Some 3000"] ok
  obtain d' r where
    s: "set_saving_goal ?d sample_user sample_now ''Phone'' 20000 (Some 30) (Some 3000)
          = Inr (d', r)"
    and a: "get_active_goals d' sample_user =
           get_active_goals ?d sample_user @
             [\<lparr>gi_goal_id = gc_goal_id r, gi_title = ''Phone'', gi_target_amount = 20000,
               gi_current_amount = 0, gi_progress_percentage = 0,
               gi_deadline = (case Some 30 of None \<Rightarrow> None
                              | Some n \<Rightarrow> if n \<noteq> 0 then Some (sample_now, n) else None),
               gi_month_nonessential_budget = Some 3000\<rparr>]"
    by blast
  from s have i: "gc_goal_id r = 2"
    unfolding set_saving_goal_ok [OF ok]
    by (auto simp: sample_db_def sample_goal_def next_id_def)
  from set_saving_goal_appends_active_goal
         [of sample_now "Some 3000000" ?d sample_user "''Phone''" 20000 "Some 3000"] bad
  have e: "set_saving_goal ?d sample_user sample_now ''Phone'' 20000 (Some 3000000) (Some 3000)
             = Inl OverflowError"
    by blast
  from ok bad e show ?thesis
    unfolding s map_sum.simps fst_conv a old i
    by simp
qed

section \<open>The notification text and the response\<close>

text \<open>
  C9. The notification text prints exactly one number with the format \<^verbatim>\<open>.0f\<close>, the
  remaining budget clamped at 0, and it names the amount spent, the merchant, the monthly
  goal and the tier's label. The clamping stays in the text: the response of the route
  carries the remaining budget as the evaluation computed it, budget minus the spend before
  the purchase minus the purchase's amount, negative or not, and its text is built from
  that same verdict.
\<close>

theorem notification_clamps_display_only:
  "fixed0_values (build_verdict_message user tx vd lbl r) = [max r 0]
   \<and> 0 \<le> max r 0
   \<and> FloatStr (td_amount tx) \<in> set (build_verdict_message user tx vd lbl r)
   \<and> Lit (td_merchant tx) \<in> set (build_verdict_message user tx vd lbl r)
   \<and> FloatStr (month_saving_goal user) \<in> set (build_verdict_message user tx vd lbl r)
   \<and> Lit lbl \<in> set (build_verdict_message user tx vd lbl r)
   \<and> (\<exists>v l. evaluate_purchase user tx (calc_month_nonessential_spend txs now - amt)
               = (v, l, user_month_nonessential_budget user
                         - (calc_month_nonessential_spend txs now - amt) - td_amount tx)
        \<and> resp_verdict (add_tx (Some user) tx txs now amt) = Some v
        \<and> verdict_label (add_tx (Some user) tx txs now amt) = Some l
        \<and> remaining_nonessential_budget_after (add_tx (Some user) tx txs now amt)
            = Some (user_month_nonessential_budget user
                      - (calc_month_nonessential_spend txs now - amt) - td_amount tx)
        \<and> notification_message (add_tx (Some user) tx txs now amt)
            = Some (build_verdict_message user tx v l
                      (user_month_nonessential_budget user
                         - (calc_month_nonessential_spend txs now - amt) - td_amount tx)))"
proof -
  have msg: "fixed0_values (build_verdict_message user tx vd lbl r) = [max r 0]
   \<and> FloatStr (td_amount tx) \<in> set (build_verdict_message user tx vd lbl r)
   \<and> Lit (td_merchant tx) \<in> set (build_verdict_message user tx vd lbl r)
   \<and> FloatStr (month_saving_goal user) \<in> set (build_verdict_message user tx vd lbl r)
   \<and> Lit lbl \<in> set (build_verdict_message user tx vd lbl r)"
    by (simp add: build_verdict_message_def Let_def)
  obtain v l ra where e: "evaluate_purchase user tx (calc_month_nonessential_spend txs now - amt)
      = (v, l, ra)"
    by (cases "evaluate_purchase user tx (calc_month_nonessential_spend txs now - amt)") auto
  then have ra: "ra = user_month_nonessential_budget user
                         - (calc_month_nonessential_spend txs now - amt) - td_amount tx"
    by (auto simp: evaluate_purchase_def Let_def split: if_splits)
  have resp: "resp_verdict (add_tx (Some user) tx txs now amt) = Some v
        \<and> verdict_label (add_tx (Some user) tx txs now amt) = Some l
        \<and> remaining_nonessential_budget_after (add_tx (Some user) tx txs now amt) = Some ra
        \<and> notification_message (add_tx (Some user) tx txs now amt)
            = Some (build_verdict_message user tx v l ra)"
    by (simp add: add_tx_def Let_def e)
  from msg e resp show ?thesis
    unfolding ra by auto
qed

theorem notification_clamps_display_only_witness:
  "remaining_nonessential_budget_after
     (add_tx (Some \<lparr>month_saving_goal = 10000, user_month_nonessential_budget = 5000\<rparr>)
        \<lparr>td_amount = 1000, td_merchant = ''Store'', td_category = ''shopping'',
         td_timestamp = at_day 2024 3 5\<rparr>
        [\<lparr>td_amount = 5000, td_merchant = ''Mall'', td_category = ''shopping'',
          td_timestamp = at_day 2024 3 2\<rparr>,
         \<lparr>td_amount = 1000, td_merchant = ''Store'', td_category = ''shopping'',
          td_timestamp = at_day 2024 3 5\<rparr>]
        sample_now 1000) = Some (- 1000)
   \<and> resp_verdict
     (add_tx (Some \<lparr>month_saving_goal = 10000, user_month_nonessential_budget = 5000\<rparr>)
        \<lparr>td_amount = 1000, td_merchant = ''Store'', td_category = ''shopping'',
         td_timestamp = at_day 2024 3 5\<rparr>
        [\<lparr>td_amount = 5000, td_merchant = ''Mall'', td_category = ''shopping'',
          td_timestamp = at_day 2024 3 2\<rparr>,
         \<lparr>td_amount = 1000, td_merchant = ''Store'', td_category = ''shopping'',
          td_timestamp = at_day 2024 3 5\<rparr>]
        sample_now 1000) = Some ''RED''
   \<and> map_option fixed0_values (notification_message
     (add_tx (Some \<lparr>month_saving_goal = 10000, user_month_nonessential_budget = 5000\<rparr>)
        \<lparr>td_amount = 1000, td_merchant = ''Store'', td_category = ''shopping'',
         td_timestamp = at_day 2024 3 5\<rparr>
        [\<lparr>td_amount = 5000, td_merchant = ''Mall'', td_category = ''shopping'',
          td_timestamp = at_day 2024 3 2\<rparr>,
         \<lparr>td_amount = 1000, td_merchant = ''Store'', td_category = ''shopping'',
          td_timestamp = at_day 2024 3 5\<rparr>]
        sample_now 1000)) = Some [0]"
proof -
  let ?u = "\<lparr>month_saving_goal = 10000, user_month_nonessential_budget = 5000\<rparr>"
  let ?tx = "\<lparr>td_amount = 1000, td_merchant = ''Store'', td_category = ''shopping'',
              td_timestamp = at_day 2024 3 5\<rparr>"
  let ?txs = "[\<lparr>td_amount = 5000, td_merchant = ''Mall'', td_category = ''shopping'',
                td_timestamp = at_day 2024 3 2\<rparr>, ?tx]"
  have c: "calc_month_nonessential_spend ?txs sample_now = 6000"
    by (simp add: calc_month_nonessential_spend_def sample_now_def at_day_def month_start_def
        dt_ge_def dt_le_def dt_fields_def)
  have e: "evaluate_purchase ?u ?tx (6000 - 1000)
             = (''RED'', ''hurting your saving goal this month'', - 1000)"
    by (simp add: evaluate_purchase_def)
  from notification_clamps_display_only
         [of ?u ?tx "''RED''" "''hurting your saving goal this month''" "- 1000" ?txs
             sample_now 1000]
  show ?thesis
    unfolding c e by auto
qed

end
